theory Spec2Isabelle
  imports Complex_Main "HOL-Library.Char_ord" "HOL-Library.List_Lexorder" "HOL-Library.Multiset"
begin

section \<open>JavaScript values\<close>

text \<open>
  The collector (\<^verbatim>\<open>tools/openclaw-observatory/collector.mjs\<close>) works on values decoded by
  \<^verbatim>\<open>JSON.parse\<close>. A decoded value is a \<open>json\<close>; \<^verbatim>\<open>undefined\<close> (an absent property) is
  \<open>None\<close> of \<open>json option\<close>. An object is the list of its key/value pairs, read by key with
  \<open>map_of\<close>. JavaScript numbers are modelled as exact rationals: every number that passes
  \<^verbatim>\<open>toFinite\<close> is finite, and floating-point rounding is not modelled. (A number literal too
  large for a double decodes to \<^verbatim>\<open>Infinity\<close>, which \<^verbatim>\<open>toFinite\<close> turns down like any value that
  is not a number; in every test the collector makes, such a value fares as \<open>JBool False\<close> does.)
\<close>

datatype json =
    JNull
  | JBool bool
  | JNum rat
  | JStr string
  | JArr "json list"
  | JObj "(string \<times> json) list"

type_synonym jsobject = "(string \<times> json) list"

definition getProp :: "jsobject \<Rightarrow> string \<Rightarrow> json option" where
  \<comment> \<open>\<^verbatim>\<open>obj.key\<close>\<close>
  "getProp obj k = map_of obj k"

fun toFinite :: "json option \<Rightarrow> rat option" where
  \<comment> \<open>\<^verbatim>\<open>typeof value === "number" && Number.isFinite(value) ? value : undefined\<close>\<close>
  "toFinite (Some (JNum n)) = Some n"
| "toFinite _ = None"

fun asRecord :: "json option \<Rightarrow> jsobject option" where
  \<comment> \<open>objects only: not null, not an array, not a primitive\<close>
  "asRecord (Some (JObj kvs)) = Some kvs"
| "asRecord _ = None"

fun asString :: "json option \<Rightarrow> string option" where
  \<comment> \<open>\<^verbatim>\<open>typeof value === "string" ? value : undefined\<close>\<close>
  "asString (Some (JStr s)) = Some s"
| "asString _ = None"

definition orElse :: "'a option \<Rightarrow> 'a option \<Rightarrow> 'a option" where
  \<comment> \<open>\<^verbatim>\<open>a ?? b\<close> on values that are either defined or \<^verbatim>\<open>undefined\<close>\<close>
  "orElse a b = (case a of Some x \<Rightarrow> Some x | None \<Rightarrow> b)"

definition nullishOr :: "json option \<Rightarrow> json option \<Rightarrow> json option" where
  \<comment> \<open>\<^verbatim>\<open>a ?? b\<close> on decoded values: \<^verbatim>\<open>null\<close> and \<^verbatim>\<open>undefined\<close> both give way to \<open>b\<close>\<close>
  "nullishOr a b = (case a of None \<Rightarrow> b | Some JNull \<Rightarrow> b | Some v \<Rightarrow> Some v)"

fun firstFinite :: "jsobject \<Rightarrow> string list \<Rightarrow> rat option" where
  \<comment> \<open>\<^verbatim>\<open>toFinite(record.k1) ?? toFinite(record.k2) ?? ...\<close>, the keys in the order written\<close>
  "firstFinite record [] = None"
| "firstFinite record (k # ks) = orElse (toFinite (getProp record k)) (firstFinite record ks)"

section \<open>Array.prototype.sort\<close>

text \<open>
  \<^verbatim>\<open>Array.prototype.sort(cmp)\<close> is stable, and with a consistent comparator it returns the
  elements in non-decreasing comparator order. That result is unique; stable insertion computes it.
\<close>

fun insertBy :: "('a \<Rightarrow> 'a \<Rightarrow> rat) \<Rightarrow> 'a \<Rightarrow> 'a list \<Rightarrow> 'a list" where
  "insertBy cmp x [] = [x]"
| "insertBy cmp x (y # ys) = (if cmp x y \<le> 0 then x # y # ys else y # insertBy cmp x ys)"

definition arraySort :: "('a \<Rightarrow> 'a \<Rightarrow> rat) \<Rightarrow> 'a list \<Rightarrow> 'a list" where
  "arraySort cmp xs = foldr (insertBy cmp) xs []"

section \<open>Usage normalisation\<close>

record usage =
  u_input :: rat
  u_output :: rat
  u_cacheRead :: rat
  u_cacheWrite :: rat
  u_total :: rat

definition normalizeUsage :: "json option \<Rightarrow> usage option" where
  "normalizeUsage raw =
    (case asRecord raw of
       None \<Rightarrow> None
     | Some record \<Rightarrow>
        (let input = (case firstFinite record
                        [''input'', ''inputTokens'', ''prompt_tokens'', ''promptTokens'']
                      of Some n \<Rightarrow> n | None \<Rightarrow> 0);
             output = (case firstFinite record
                        [''output'', ''outputTokens'', ''completion_tokens'', ''completionTokens'']
                      of Some n \<Rightarrow> n | None \<Rightarrow> 0);
             cacheRead = (case firstFinite record
                        [''cacheRead'', ''cache_read_input_tokens'', ''cacheReadInputTokens'']
                      of Some n \<Rightarrow> n | None \<Rightarrow> 0);
             cacheWrite = (case firstFinite record
                        [''cacheWrite'', ''cache_creation_input_tokens'', ''cacheWriteInputTokens'']
                      of Some n \<Rightarrow> n | None \<Rightarrow> 0);
             totalV = (case firstFinite record [''total'', ''totalTokens'', ''total_tokens'']
                      of Some n \<Rightarrow> n | None \<Rightarrow> input + output + cacheRead + cacheWrite)
         in if totalV \<le> 0 \<and> input \<le> 0 \<and> output \<le> 0 \<and> cacheRead \<le> 0 \<and> cacheWrite \<le> 0
            then None
            else Some \<lparr> u_input = max 0 input, u_output = max 0 output,
                        u_cacheRead = max 0 cacheRead, u_cacheWrite = max 0 cacheWrite,
                        u_total = max 0 totalV \<rparr>))"

section \<open>Latency statistics\<close>

record latency_stats =
  ls_count :: nat
  ls_avgMs :: rat
  ls_p95Ms :: rat
  ls_minMs :: rat
  ls_maxMs :: rat

definition computeLatencyStats :: "rat list \<Rightarrow> latency_stats option" where
  "computeLatencyStats vals =
    (if vals = [] then None
     else
       (let sorted = arraySort (\<lambda>a b. a - b) vals;
            count = length sorted;
            sum = foldl (\<lambda>acc n. acc + n) 0 sorted;
            p95Index = min (length sorted - 1) (nat \<lfloor>of_nat (length sorted) * (95 / 100 :: rat)\<rfloor>)
        in Some \<lparr> ls_count = count, ls_avgMs = sum / of_nat count, ls_p95Ms = sorted ! p95Index,
                    ls_minMs = sorted ! 0, ls_maxMs = sorted ! (length sorted - 1) \<rparr>))"

section \<open>Strings\<close>

text \<open>
  Strings are lists of 8-bit characters (code units below 256). \<open>trim\<close> strips the white
  space and line terminators of that range; \<open>toLowerCase\<close> maps the ASCII capitals, which is
  all that membership in \<open>STOP_REASON_ERRORS\<close> depends on. \<open>localeCompare\<close> is taken as
  the lexicographic order, which is what it is on the day keys \<^verbatim>\<open>YYYY-MM-DD\<close>.
\<close>

definition isWhiteSpace :: "char \<Rightarrow> bool" where
  "isWhiteSpace c = (c \<in> set [CHR 0x09, CHR 0x0A, CHR 0x0B, CHR 0x0C, CHR 0x0D, CHR 0x20, CHR 0xA0])"

definition trim :: "string \<Rightarrow> string" where
  "trim s = rev (dropWhile isWhiteSpace (rev (dropWhile isWhiteSpace s)))"

definition lowerChar :: "char \<Rightarrow> char" where
  "lowerChar c = (let n = (of_char c :: nat) in if 65 \<le> n \<and> n \<le> 90 then char_of (n + 32) else c)"

definition toLowerCase :: "string \<Rightarrow> string" where
  "toLowerCase s = map lowerChar s"

definition localeCompare :: "string \<Rightarrow> string \<Rightarrow> rat" where
  "localeCompare a b = (if a < b then - 1 else if a = b then 0 else 1)"

definition STOP_REASON_ERRORS :: "string list" where
  "STOP_REASON_ERRORS = [''error'', ''aborted'', ''cancelled'', ''timeout'']"

section \<open>Insertion-ordered maps and sets\<close>

text \<open>
  A JavaScript \<^verbatim>\<open>Map\<close> iterates in insertion order: it is the list of its entries.
  \<^verbatim>\<open>set\<close> on a present key replaces the value in place, on a new key appends.
\<close>

fun mapSet :: "'k \<Rightarrow> 'v \<Rightarrow> ('k \<times> 'v) list \<Rightarrow> ('k \<times> 'v) list" where
  "mapSet k v [] = [(k, v)]"
| "mapSet k v ((k', v') # rest) = (if k' = k then (k, v) # rest else (k', v') # mapSet k v rest)"

definition mapGet :: "('k \<times> 'v) list \<Rightarrow> 'k \<Rightarrow> 'v option" where
  "mapGet m k = map_of m k"

definition mapGetOr :: "('k \<times> 'v) list \<Rightarrow> 'k \<Rightarrow> 'v \<Rightarrow> 'v" where
  \<comment> \<open>\<^verbatim>\<open>m.get(k) ?? d\<close>\<close>
  "mapGetOr m k d = (case map_of m k of Some v \<Rightarrow> v | None \<Rightarrow> d)"

definition setAdd :: "'a \<Rightarrow> 'a list \<Rightarrow> 'a list" where
  \<comment> \<open>\<^verbatim>\<open>Set.prototype.add\<close>\<close>
  "setAdd x xs = (if x \<in> set xs then xs else xs @ [x])"

section \<open>Totals and cost\<close>

record totals =
  t_input :: rat
  t_output :: rat
  t_cacheRead :: rat
  t_cacheWrite :: rat
  t_totalTokens :: rat
  t_totalCost :: rat
  t_inputCost :: rat
  t_outputCost :: rat
  t_cacheReadCost :: rat
  t_cacheWriteCost :: rat
  t_missingCostEntries :: nat

definition createTotals :: totals where
  "createTotals = \<lparr> t_input = 0, t_output = 0, t_cacheRead = 0, t_cacheWrite = 0,
     t_totalTokens = 0, t_totalCost = 0, t_inputCost = 0, t_outputCost = 0,
     t_cacheReadCost = 0, t_cacheWriteCost = 0, t_missingCostEntries = 0 \<rparr>"

definition mergeTotals :: "totals \<Rightarrow> totals \<Rightarrow> totals" where
  "mergeTotals target source =
     \<lparr> t_input = t_input target + t_input source,
       t_output = t_output target + t_output source,
       t_cacheRead = t_cacheRead target + t_cacheRead source,
       t_cacheWrite = t_cacheWrite target + t_cacheWrite source,
       t_totalTokens = t_totalTokens target + t_totalTokens source,
       t_totalCost = t_totalCost target + t_totalCost source,
       t_inputCost = t_inputCost target + t_inputCost source,
       t_outputCost = t_outputCost target + t_outputCost source,
       t_cacheReadCost = t_cacheReadCost target + t_cacheReadCost source,
       t_cacheWriteCost = t_cacheWriteCost target + t_cacheWriteCost source,
       t_missingCostEntries = t_missingCostEntries target + t_missingCostEntries source \<rparr>"

definition applyUsageTotals :: "totals \<Rightarrow> usage \<Rightarrow> totals" where
  "applyUsageTotals tot u =
     tot \<lparr> t_input := t_input tot + u_input u,
           t_output := t_output tot + u_output u,
           t_cacheRead := t_cacheRead tot + u_cacheRead u,
           t_cacheWrite := t_cacheWrite tot + u_cacheWrite u,
           t_totalTokens := t_totalTokens tot + u_total u \<rparr>"

record cost_breakdown =
  cb_total :: rat
  cb_input :: "rat option"
  cb_output :: "rat option"
  cb_cacheRead :: "rat option"
  cb_cacheWrite :: "rat option"

definition extractCostBreakdown :: "json option \<Rightarrow> cost_breakdown option" where
  "extractCostBreakdown usageRaw =
    (case asRecord usageRaw of
       None \<Rightarrow> None
     | Some u \<Rightarrow>
        (case asRecord (getProp u ''cost'') of
           None \<Rightarrow> None
         | Some cost \<Rightarrow>
            (case toFinite (getProp cost ''total'') of
               None \<Rightarrow> None
             | Some totalV \<Rightarrow>
                 if totalV < 0 then None
                 else Some \<lparr> cb_total = totalV,
                             cb_input = toFinite (getProp cost ''input''),
                             cb_output = toFinite (getProp cost ''output''),
                             cb_cacheRead = toFinite (getProp cost ''cacheRead''),
                             cb_cacheWrite = toFinite (getProp cost ''cacheWrite'') \<rparr>)))"

definition addOpt :: "rat \<Rightarrow> rat option \<Rightarrow> rat" where
  \<comment> \<open>\<^verbatim>\<open>if (x !== undefined) acc += x\<close>\<close>
  "addOpt acc x = (case x of Some v \<Rightarrow> acc + v | None \<Rightarrow> acc)"

definition applyCostBreakdown :: "totals \<Rightarrow> cost_breakdown \<Rightarrow> totals" where
  "applyCostBreakdown tot b =
     tot \<lparr> t_totalCost := t_totalCost tot + cb_total b,
           t_inputCost := addOpt (t_inputCost tot) (cb_input b),
           t_outputCost := addOpt (t_outputCost tot) (cb_output b),
           t_cacheReadCost := addOpt (t_cacheReadCost tot) (cb_cacheRead b),
           t_cacheWriteCost := addOpt (t_cacheWriteCost tot) (cb_cacheWrite b) \<rparr>"

definition applyCostTotal :: "totals \<Rightarrow> rat option \<Rightarrow> totals" where
  "applyCostTotal tot totalV =
     (case totalV of
        Some c \<Rightarrow> if 0 \<le> c then tot \<lparr> t_totalCost := t_totalCost tot + c \<rparr>
                  else tot \<lparr> t_missingCostEntries := t_missingCostEntries tot + 1 \<rparr>
      | None \<Rightarrow> tot \<lparr> t_missingCostEntries := t_missingCostEntries tot + 1 \<rparr>)"

definition sortByCostThenTokens :: "totals \<Rightarrow> totals \<Rightarrow> rat" where
  \<comment> \<open>the comparator, on the \<^verbatim>\<open>totals\<close> of its two arguments\<close>
  "sortByCostThenTokens a b =
     (let cost = t_totalCost b - t_totalCost a
      in if cost \<noteq> 0 then cost else t_totalTokens b - t_totalTokens a)"

section \<open>Record normaliser\<close>

record tool_details =
  td_names :: "string list"
  td_results :: nat
  td_errors :: nat

definition toolBlock :: "tool_details \<Rightarrow> json \<Rightarrow> tool_details" where
  \<comment> \<open>the body of the loop over \<^verbatim>\<open>message.content\<close>\<close>
  "toolBlock acc part =
    (case asRecord (Some part) of
       None \<Rightarrow> acc
     | Some block \<Rightarrow>
        (let acc1 =
               (if getProp block ''type'' = Some (JStr ''tool_use'')
                then (let name = (case getProp block ''name'' of Some (JStr n) \<Rightarrow> trim n | _ \<Rightarrow> [])
                      in if name \<noteq> [] then acc \<lparr> td_names := td_names acc @ [name] \<rparr> else acc)
                else acc)
         in if getProp block ''type'' = Some (JStr ''tool_result'')
            then acc1 \<lparr> td_results := td_results acc1 + 1,
                        td_errors := (if getProp block ''is_error'' = Some (JBool True)
                                      then td_errors acc1 + 1 else td_errors acc1) \<rparr>
            else acc1))"

definition extractToolDetails :: "jsobject \<Rightarrow> tool_details" where
  "extractToolDetails message =
    (let acc0 = \<lparr> td_names = [], td_results = 0, td_errors = 0 \<rparr>;
         acc1 = (case getProp message ''content'' of
                   Some (JArr content) \<Rightarrow> foldl toolBlock acc0 content
                 | _ \<Rightarrow> acc0);
         acc2 = (if getProp message ''role'' = Some (JStr ''tool'')
                 then acc1 \<lparr> td_names := td_names acc1 @
                        [case getProp message ''toolName'' of
                           Some (JStr n) \<Rightarrow> n
                         | _ \<Rightarrow> (case getProp message ''name'' of Some (JStr n) \<Rightarrow> n | _ \<Rightarrow> ''tool'')] \<rparr>
                 else acc1)
     in if getProp message ''role'' = Some (JStr ''toolResult'')
        then acc2 \<lparr> td_results := td_results acc2 + 1 \<rparr>
        else acc2)"

text \<open>
  The platform functions the parser calls: \<^verbatim>\<open>JSON.parse\<close> (\<open>None\<close> when it throws),
  \<^verbatim>\<open>Date.parse\<close> (\<open>None\<close> for \<^verbatim>\<open>NaN\<close>) and the UTC calendar day of a millisecond
  timestamp, which \<^verbatim>\<open>dayKeyFromMs\<close> formats from \<^verbatim>\<open>Date\<close>.
\<close>

record platform =
  JSON_parse :: "string \<Rightarrow> json option"
  Date_parse :: "string \<Rightarrow> rat option"
  dayKeyFromMs :: "rat \<Rightarrow> string"

record range =
  startMs :: "rat option"
  endMs :: rat

datatype role = User | Assistant | Tool | ToolResult

definition messageOf :: "jsobject \<Rightarrow> jsobject" where
  \<comment> \<open>\<^verbatim>\<open>asRecord(record.message) ?? {}\<close>\<close>
  "messageOf record = (case asRecord (getProp record ''message'') of Some m \<Rightarrow> m | None \<Rightarrow> [])"

definition roleOf :: "jsobject \<Rightarrow> role option" where
  "roleOf message =
    (case getProp message ''role'' of
       Some (JStr r) \<Rightarrow>
         if r = ''user'' then Some User
         else if r = ''assistant'' then Some Assistant
         else if r = ''tool'' then Some Tool
         else if r = ''toolResult'' then Some ToolResult
         else None
     | _ \<Rightarrow> None)"

definition parseTimestampMs :: "platform \<Rightarrow> jsobject \<Rightarrow> jsobject \<Rightarrow> rat option" where
  "parseTimestampMs env entry message =
    orElse (case getProp entry ''timestamp'' of Some (JStr str) \<Rightarrow> Date_parse env str | _ \<Rightarrow> None)
           (toFinite (getProp message ''timestamp''))"

definition inRange :: "range \<Rightarrow> rat option \<Rightarrow> bool" where
  \<comment> \<open>a \<open>startMs\<close> of \<open>None\<close> is \<^verbatim>\<open>Number.NEGATIVE_INFINITY\<close>\<close>
  "inRange rng timestampMs =
    (case timestampMs of
       None \<Rightarrow> True
     | Some ts \<Rightarrow> (case startMs rng of None \<Rightarrow> True | Some st \<Rightarrow> st \<le> ts) \<and> ts \<le> endMs rng)"

definition dayKeyOf :: "platform \<Rightarrow> rat option \<Rightarrow> string option" where
  \<comment> \<open>\<^verbatim>\<open>dayKey\<close> is only ever tested for truthiness: \<^verbatim>\<open>null\<close> and the empty string are \<open>None\<close>\<close>
  "dayKeyOf env timestampMs =
    (case timestampMs of
       None \<Rightarrow> None
     | Some ts \<Rightarrow> if dayKeyFromMs env ts = [] then None else Some (dayKeyFromMs env ts))"

definition stopReasonOf :: "jsobject \<Rightarrow> jsobject \<Rightarrow> string option" where
  "stopReasonOf record message =
    orElse (asString (getProp message ''stopReason'')) (asString (getProp record ''stopReason''))"

definition stopReasonIsError :: "string option \<Rightarrow> bool" where
  \<comment> \<open>\<^verbatim>\<open>stopReason && STOP_REASON_ERRORS.has(stopReason.toLowerCase())\<close>\<close>
  "stopReasonIsError stopReason =
    (case stopReason of
       None \<Rightarrow> False
     | Some r \<Rightarrow> r \<noteq> [] \<and> toLowerCase r \<in> set STOP_REASON_ERRORS)"

definition usageRawOf :: "jsobject \<Rightarrow> jsobject \<Rightarrow> json option" where
  \<comment> \<open>\<^verbatim>\<open>message.usage ?? record.usage\<close>\<close>
  "usageRawOf record message = nullishOr (getProp message ''usage'') (getProp record ''usage'')"

definition providerOf :: "jsobject \<Rightarrow> jsobject \<Rightarrow> string option" where
  "providerOf record message =
    orElse (asString (getProp message ''provider'')) (asString (getProp record ''provider''))"

definition modelOf :: "jsobject \<Rightarrow> jsobject \<Rightarrow> string option" where
  "modelOf record message =
    orElse (asString (getProp message ''model'')) (asString (getProp record ''model''))"

definition modelKeyOf :: "string option \<Rightarrow> string option \<Rightarrow> string" where
  \<comment> \<open>the template \<^verbatim>\<open>${provider ?? "unknown"}::${model ?? "unknown"}\<close>\<close>
  "modelKeyOf provider model =
    (case provider of Some p \<Rightarrow> p | None \<Rightarrow> ''unknown'') @ ''::'' @
    (case model of Some m \<Rightarrow> m | None \<Rightarrow> ''unknown'')"

definition rawCostTotalOf :: "jsobject \<Rightarrow> jsobject \<Rightarrow> rat option" where
  "rawCostTotalOf record message =
    orElse (toFinite (getProp record ''costTotal''))
      (orElse (toFinite (getProp message ''costTotal''))
        (orElse (toFinite (case asRecord (getProp record ''cost'') of
                             Some c \<Rightarrow> getProp c ''total'' | None \<Rightarrow> None))
                (toFinite (case asRecord (getProp message ''cost'') of
                             Some c \<Rightarrow> getProp c ''total'' | None \<Rightarrow> None))))"

definition entryCostTotalOf :: "jsobject \<Rightarrow> jsobject \<Rightarrow> rat option" where
  \<comment> \<open>\<^verbatim>\<open>entryCostTotal\<close> once the \<^verbatim>\<open>if (usage)\<close> block is over\<close>
  "entryCostTotalOf record message =
    (case normalizeUsage (usageRawOf record message) of
       None \<Rightarrow> None
     | Some u \<Rightarrow>
        (case extractCostBreakdown (usageRawOf record message) of
           Some b \<Rightarrow> Some (cb_total b)
         | None \<Rightarrow> rawCostTotalOf record message))"

definition durationMsOf ::
  "jsobject \<Rightarrow> jsobject \<Rightarrow> role option \<Rightarrow> rat option \<Rightarrow> rat option \<Rightarrow> rat option" where
  \<comment> \<open>\<open>lastUserTs\<close> is tested for truthiness: a defined, nonzero number\<close>
  "durationMsOf record message rl timestampMs lastUserTs =
    (case orElse (toFinite (getProp record ''durationMs'')) (toFinite (getProp message ''durationMs'')) of
       Some d \<Rightarrow> Some d
     | None \<Rightarrow>
        (case timestampMs of
           None \<Rightarrow> None
         | Some ts \<Rightarrow>
            (case lastUserTs of
               None \<Rightarrow> None
             | Some lu \<Rightarrow> if rl = Some Assistant \<and> lu \<noteq> 0 then Some (max 0 (ts - lu)) else None)))"

section \<open>Session parser\<close>

record message_counts =
  mc_total :: nat
  mc_user :: nat
  mc_assistant :: nat
  mc_toolCalls :: nat
  mc_toolResults :: nat
  mc_errors :: nat

record day_bucket =
  d_date :: string
  d_tokens :: rat
  d_cost :: rat
  d_messages :: nat
  d_toolCalls :: nat
  d_errors :: nat

record model_bucket =
  mb_provider :: "string option"
  mb_model :: "string option"
  mb_count :: nat
  mb_totals :: totals

record timeline_event =
  te_timestamp :: rat
  te_role :: role
  te_provider :: "string option"
  te_model :: "string option"
  te_tokens :: rat
  te_inputTokens :: rat
  te_outputTokens :: rat
  te_cost :: "rat option"
  te_durationMs :: "rat option"
  te_toolCalls :: nat
  te_toolResults :: nat
  te_isError :: bool
  te_stopReason :: "string option"

record waterfall_span =
  ws_startTs :: rat
  ws_endTs :: rat
  ws_latencyMs :: rat
  ws_provider :: "string option"
  ws_model :: "string option"
  ws_tokens :: rat
  ws_cost :: "rat option"
  ws_error :: bool

text \<open>
  The accumulators of \<^verbatim>\<open>parseSessionFile\<close>. The text snippet of a timeline event and the
  \<^verbatim>\<open>preview\<close> buffer are display strings and are left out.
\<close>

record parse_state =
  st_totals :: totals
  st_messageCounts :: message_counts
  st_toolMap :: "(string \<times> nat) list"
  st_modelMap :: "(string \<times> model_bucket) list"
  st_dailyMap :: "(string \<times> day_bucket) list"
  st_dailyLatencies :: "(string \<times> rat list) list"
  st_latencyValues :: "rat list"
  st_timeline :: "timeline_event list"
  st_waterfall :: "waterfall_span list"
  st_activityDates :: "string list"
  st_firstActivity :: "rat option"
  st_lastActivity :: "rat option"
  st_lastUserTs :: "rat option"
  st_previousAssistantModelKey :: "string option"
  st_modelSwitches :: nat

definition initialState :: parse_state where
  "initialState =
    \<lparr> st_totals = createTotals,
      st_messageCounts = \<lparr> mc_total = 0, mc_user = 0, mc_assistant = 0, mc_toolCalls = 0,
                            mc_toolResults = 0, mc_errors = 0 \<rparr>,
      st_toolMap = [], st_modelMap = [], st_dailyMap = [], st_dailyLatencies = [],
      st_latencyValues = [], st_timeline = [], st_waterfall = [], st_activityDates = [],
      st_firstActivity = None, st_lastActivity = None, st_lastUserTs = None,
      st_previousAssistantModelKey = None, st_modelSwitches = 0 \<rparr>"

definition countMessages ::
  "role option \<Rightarrow> tool_details \<Rightarrow> bool \<Rightarrow> message_counts \<Rightarrow> message_counts" where
  \<comment> \<open>the updates of \<^verbatim>\<open>messageCounts\<close>, in source order\<close>
  "countMessages rl tools stopErr mc =
    mc \<lparr> mc_total := (if rl = Some User \<or> rl = Some Assistant then mc_total mc + 1 else mc_total mc),
         mc_user := (if rl = Some User then mc_user mc + 1 else mc_user mc),
         mc_assistant := (if rl = Some Assistant then mc_assistant mc + 1 else mc_assistant mc),
         mc_toolCalls := mc_toolCalls mc + length (td_names tools),
         mc_toolResults := mc_toolResults mc + td_results tools,
         mc_errors := mc_errors mc + (if 0 < td_results tools then td_errors tools else 0)
                        + (if stopErr then 1 else 0) \<rparr>"

definition applyEntryCost :: "totals \<Rightarrow> json option \<Rightarrow> rat option \<Rightarrow> totals" where
  \<comment> \<open>the cost branch of the \<^verbatim>\<open>if (usage)\<close> block, on one \<^verbatim>\<open>totals\<close> object\<close>
  "applyEntryCost tot usageRaw rawCostTotal =
    (case extractCostBreakdown usageRaw of
       Some breakdown \<Rightarrow> applyCostBreakdown tot breakdown
     | None \<Rightarrow> applyCostTotal tot rawCostTotal)"

definition dayBucketCost :: "json option \<Rightarrow> rat option \<Rightarrow> rat" where
  \<comment> \<open>what the same branch adds to \<^verbatim>\<open>dayBucket.cost\<close>: a flat total is added whatever its sign\<close>
  "dayBucketCost usageRaw rawCostTotal =
    (case extractCostBreakdown usageRaw of
       Some breakdown \<Rightarrow> cb_total breakdown
     | None \<Rightarrow> (case rawCostTotal of Some c \<Rightarrow> c | None \<Rightarrow> 0))"

definition foldDayBucket ::
  "role option \<Rightarrow> tool_details \<Rightarrow> bool \<Rightarrow> usage option \<Rightarrow> json option \<Rightarrow> rat option
     \<Rightarrow> day_bucket \<Rightarrow> day_bucket" where
  "foldDayBucket rl tools stopErr usage usageRaw rawCostTotal b =
    b \<lparr> d_messages := (if rl = Some User \<or> rl = Some Assistant then d_messages b + 1 else d_messages b),
        d_toolCalls := d_toolCalls b + length (td_names tools),
        d_errors := d_errors b + (if 0 < td_results tools then td_errors tools else 0)
                      + (if stopErr then 1 else 0),
        d_tokens := (case usage of Some u \<Rightarrow> d_tokens b + u_total u | None \<Rightarrow> d_tokens b),
        d_cost := (case usage of Some u \<Rightarrow> d_cost b + dayBucketCost usageRaw rawCostTotal
                   | None \<Rightarrow> d_cost b) \<rparr>"

definition newDayBucket :: "string \<Rightarrow> day_bucket" where
  "newDayBucket dayKey =
    \<lparr> d_date = dayKey, d_tokens = 0, d_cost = 0, d_messages = 0, d_toolCalls = 0, d_errors = 0 \<rparr>"

definition foldModelMap ::
  "string option \<Rightarrow> string option \<Rightarrow> usage \<Rightarrow> json option \<Rightarrow> rat option
     \<Rightarrow> (string \<times> model_bucket) list \<Rightarrow> (string \<times> model_bucket) list" where
  "foldModelMap provider model u usageRaw rawCostTotal modelMap =
    (let modelKey = modelKeyOf provider model;
         modelBucket = mapGetOr modelMap modelKey
            \<lparr> mb_provider = provider, mb_model = model, mb_count = 0, mb_totals = createTotals \<rparr>
     in mapSet modelKey
          (modelBucket \<lparr> mb_count := mb_count modelBucket + 1,
                         mb_totals := applyEntryCost (applyUsageTotals (mb_totals modelBucket) u)
                                        usageRaw rawCostTotal \<rparr>)
          modelMap)"

definition isModelSwitch :: "role option \<Rightarrow> string option \<Rightarrow> string \<Rightarrow> bool" where
  \<comment> \<open>\<open>previousAssistantModelKey\<close> is tested for truthiness: a non-empty string\<close>
  "isModelSwitch rl previousAssistantModelKey assistantModelKey =
    (rl = Some Assistant
     \<and> (case previousAssistantModelKey of None \<Rightarrow> False | Some prev \<Rightarrow> prev \<noteq> [])
     \<and> assistantModelKey \<noteq> ''unknown::unknown''
     \<and> Some assistantModelKey \<noteq> previousAssistantModelKey)"

definition processRecord :: "platform \<Rightarrow> range \<Rightarrow> jsobject \<Rightarrow> parse_state \<Rightarrow> parse_state" where
  \<comment> \<open>the loop body of \<^verbatim>\<open>parseSessionFile\<close> from \<^verbatim>\<open>const message = ...\<close> on\<close>
  "processRecord env rng record s =
    (let message = messageOf record;
         rl = roleOf message;
         timestampMs = parseTimestampMs env record message
     in if \<not> inRange rng timestampMs then s
        else
          (let dayKey = dayKeyOf env timestampMs;
               lastUserTs = (if rl = Some User \<and> timestampMs \<noteq> None then timestampMs
                             else st_lastUserTs s);
               tools = extractToolDetails message;
               stopReason = stopReasonOf record message;
               stopErr = stopReasonIsError stopReason;
               usageRaw = usageRawOf record message;
               usage = normalizeUsage usageRaw;
               provider = providerOf record message;
               model = modelOf record message;
               assistantModelKey = modelKeyOf provider model;
               rawCostTotal = rawCostTotalOf record message;
               entryCostTotal = entryCostTotalOf record message;
               durationMs = durationMsOf record message rl timestampMs lastUserTs;
               entryIsError = (0 < td_errors tools \<or> stopErr)
           in s \<lparr>
             st_firstActivity :=
               (case timestampMs of
                  None \<Rightarrow> st_firstActivity s
                | Some ts \<Rightarrow> Some (case st_firstActivity s of None \<Rightarrow> ts | Some f \<Rightarrow> min f ts)),
             st_lastActivity :=
               (case timestampMs of
                  None \<Rightarrow> st_lastActivity s
                | Some ts \<Rightarrow> Some (case st_lastActivity s of None \<Rightarrow> ts | Some l \<Rightarrow> max l ts)),
             st_activityDates :=
               (case timestampMs of
                  None \<Rightarrow> st_activityDates s
                | Some ts \<Rightarrow> setAdd (dayKeyFromMs env ts) (st_activityDates s)),
             st_messageCounts := countMessages rl tools stopErr (st_messageCounts s),
             st_lastUserTs := lastUserTs,
             st_toolMap :=
               foldl (\<lambda>m name. mapSet name (mapGetOr m name 0 + 1) m) (st_toolMap s) (td_names tools),
             st_totals :=
               (case usage of
                  None \<Rightarrow> st_totals s
                | Some u \<Rightarrow> applyEntryCost (applyUsageTotals (st_totals s) u) usageRaw rawCostTotal),
             st_modelMap :=
               (case usage of
                  None \<Rightarrow> st_modelMap s
                | Some u \<Rightarrow> foldModelMap provider model u usageRaw rawCostTotal (st_modelMap s)),
             st_latencyValues :=
               (case durationMs of
                  Some d \<Rightarrow> if rl = Some Assistant then st_latencyValues s @ [d] else st_latencyValues s
                | None \<Rightarrow> st_latencyValues s),
             st_dailyLatencies :=
               (case durationMs of
                  Some d \<Rightarrow>
                    (case dayKey of
                       Some k \<Rightarrow>
                         if rl = Some Assistant
                         then mapSet k (mapGetOr (st_dailyLatencies s) k [] @ [d]) (st_dailyLatencies s)
                         else st_dailyLatencies s
                     | None \<Rightarrow> st_dailyLatencies s)
                | None \<Rightarrow> st_dailyLatencies s),
             st_modelSwitches :=
               (if isModelSwitch rl (st_previousAssistantModelKey s) assistantModelKey
                then st_modelSwitches s + 1 else st_modelSwitches s),
             st_previousAssistantModelKey :=
               (if rl = Some Assistant \<and> assistantModelKey \<noteq> ''unknown::unknown''
                then Some assistantModelKey else st_previousAssistantModelKey s),
             st_timeline :=
               (case timestampMs of
                  None \<Rightarrow> st_timeline s
                | Some ts \<Rightarrow>
                   (case rl of
                      None \<Rightarrow> st_timeline s
                    | Some r \<Rightarrow> st_timeline s @
                        [\<lparr> te_timestamp = ts, te_role = r, te_provider = provider, te_model = model,
                           te_tokens = (case usage of Some u \<Rightarrow> u_total u | None \<Rightarrow> 0),
                           te_inputTokens = (case usage of Some u \<Rightarrow> u_input u | None \<Rightarrow> 0),
                           te_outputTokens = (case usage of Some u \<Rightarrow> u_output u | None \<Rightarrow> 0),
                           te_cost = entryCostTotal, te_durationMs = durationMs,
                           te_toolCalls = length (td_names tools), te_toolResults = td_results tools,
                           te_isError = entryIsError, te_stopReason = stopReason \<rparr>])),
             st_waterfall :=
               (case timestampMs of
                  None \<Rightarrow> st_waterfall s
                | Some ts \<Rightarrow>
                   (case lastUserTs of
                      None \<Rightarrow> st_waterfall s
                    | Some lu \<Rightarrow>
                        if rl = Some Assistant
                        then st_waterfall s @
                          [\<lparr> ws_startTs = min lu ts, ws_endTs = ts, ws_latencyMs = max 0 (ts - lu),
                             ws_provider = provider, ws_model = model,
                             ws_tokens = (case usage of Some u \<Rightarrow> u_total u | None \<Rightarrow> 0),
                             ws_cost = entryCostTotal, ws_error = entryIsError \<rparr>]
                        else st_waterfall s)),
             st_dailyMap :=
               (case dayKey of
                  None \<Rightarrow> st_dailyMap s
                | Some k \<Rightarrow>
                    mapSet k
                      (foldDayBucket rl tools stopErr usage usageRaw rawCostTotal
                         (mapGetOr (st_dailyMap s) k (newDayBucket k)))
                      (st_dailyMap s)) \<rparr>))"

definition processLine :: "platform \<Rightarrow> range \<Rightarrow> parse_state \<Rightarrow> string \<Rightarrow> parse_state" where
  \<comment> \<open>one turn of \<^verbatim>\<open>for await (const rawLine of rl)\<close>; each \<^verbatim>\<open>continue\<close> returns the state as it is\<close>
  "processLine env rng s rawLine =
    (let line = trim rawLine
     in if line = [] then s
        else
          (case JSON_parse env line of
             None \<Rightarrow> s
           | Some parsed \<Rightarrow>
              (case asRecord (Some parsed) of
                 None \<Rightarrow> s
               | Some record \<Rightarrow> processRecord env rng record s)))"

definition parseLines :: "platform \<Rightarrow> range \<Rightarrow> string list \<Rightarrow> parse_state" where
  "parseLines env rng lines = foldl (processLine env rng) initialState lines"

record session_day =
  sd_date :: string
  sd_tokens :: rat
  sd_cost :: rat
  sd_messages :: nat
  sd_toolCalls :: nat
  sd_errors :: nat
  sd_latency :: "latency_stats option"

record tool_row =
  tr_name :: string
  tr_count :: nat

record tool_usage =
  tu_totalCalls :: nat
  tu_uniqueTools :: nat
  tu_tools :: "tool_row list"

text \<open>
  What \<^verbatim>\<open>parseSessionFile\<close> takes from the file name, the session store and \<^verbatim>\<open>fs.stat\<close>:
  the identity of the session, its channel and \<^verbatim>\<open>updatedAt\<close> (always a number: the store's
  value or the file's \<^verbatim>\<open>mtimeMs\<close>). The other metadata (label, chat type, context report)
  is carried through unchanged and is left out.
\<close>

record session_meta =
  sm_id :: string
  sm_agentId :: string
  sm_channel :: "string option"
  sm_updatedAt :: rat

record session_summary =
  ss_id :: string
  ss_agentId :: string
  ss_channel :: "string option"
  ss_updatedAt :: rat
  ss_firstActivity :: "rat option"
  ss_lastActivity :: "rat option"
  ss_durationMs :: "rat option"
  ss_totals :: totals
  ss_messageCounts :: message_counts
  ss_toolUsage :: tool_usage
  ss_modelUsage :: "model_bucket list"
  ss_latency :: "latency_stats option"
  ss_daily :: "session_day list"
  ss_timeline :: "timeline_event list"
  ss_waterfall :: "waterfall_span list"
  ss_modelSwitches :: nat
  ss_uniqueModels :: nat
  ss_activityDates :: "string list"

definition tailOf :: "rat \<Rightarrow> 'a list \<Rightarrow> 'a list" where
  \<comment> \<open>\<^verbatim>\<open>xs.length > limit ? xs.slice(xs.length - limit) : xs\<close>; \<^verbatim>\<open>slice\<close> truncates its argument\<close>
  "tailOf limit xs =
    (if of_nat (length xs) > limit then drop (nat \<lfloor>of_nat (length xs) - limit\<rfloor>) xs else xs)"

definition dailyOf :: "parse_state \<Rightarrow> session_day list" where
  "dailyOf s =
    arraySort (\<lambda>a b. localeCompare (sd_date a) (sd_date b))
      (map (\<lambda>(k, day).
              \<lparr> sd_date = d_date day, sd_tokens = d_tokens day, sd_cost = d_cost day,
                sd_messages = d_messages day, sd_toolCalls = d_toolCalls day,
                sd_errors = d_errors day,
                sd_latency = computeLatencyStats (mapGetOr (st_dailyLatencies s) (d_date day) []) \<rparr>)
           (st_dailyMap s))"

definition toolUsageOf :: "(string \<times> nat) list \<Rightarrow> tool_usage" where
  "toolUsageOf toolMap =
    \<lparr> tu_totalCalls = foldl (\<lambda>sum count. sum + count) 0 (map snd toolMap),
      tu_uniqueTools = length toolMap,
      tu_tools = arraySort (\<lambda>a b. of_nat (tr_count b) - of_nat (tr_count a))
                   (map (\<lambda>(name, count). \<lparr> tr_name = name, tr_count = count \<rparr>) toolMap) \<rparr>"

definition summarize :: "session_meta \<Rightarrow> rat \<Rightarrow> parse_state \<Rightarrow> session_summary" where
  \<comment> \<open>\<^verbatim>\<open>parseSessionFile\<close> after the loop\<close>
  "summarize meta timelineLimit s =
    (let modelUsage = arraySort (\<lambda>a b. sortByCostThenTokens (mb_totals a) (mb_totals b))
                        (map snd (st_modelMap s));
         sortedTimeline = arraySort (\<lambda>a b. te_timestamp a - te_timestamp b) (st_timeline s);
         sortedWaterfall = arraySort (\<lambda>a b. ws_startTs a - ws_startTs b) (st_waterfall s);
         uniqueModelKeys = remdups (map (\<lambda>m. modelKeyOf (mb_provider m) (mb_model m)) modelUsage)
     in \<lparr> ss_id = sm_id meta,
          ss_agentId = sm_agentId meta,
          ss_channel = sm_channel meta,
          ss_updatedAt = sm_updatedAt meta,
          ss_firstActivity = st_firstActivity s,
          ss_lastActivity = st_lastActivity s,
          ss_durationMs =
            (case st_firstActivity s of
               None \<Rightarrow> None
             | Some f \<Rightarrow> (case st_lastActivity s of None \<Rightarrow> None | Some l \<Rightarrow> Some (max 0 (l - f)))),
          ss_totals = st_totals s,
          ss_messageCounts = st_messageCounts s,
          ss_toolUsage = toolUsageOf (st_toolMap s),
          ss_modelUsage = modelUsage,
          ss_latency = computeLatencyStats (st_latencyValues s),
          ss_daily = dailyOf s,
          ss_timeline = tailOf timelineLimit sortedTimeline,
          ss_waterfall = tailOf timelineLimit sortedWaterfall,
          ss_modelSwitches = st_modelSwitches s,
          ss_uniqueModels = length uniqueModelKeys,
          ss_activityDates = arraySort localeCompare (st_activityDates s) \<rparr>)"

definition parseSessionFile ::
  "platform \<Rightarrow> session_meta \<Rightarrow> range \<Rightarrow> rat \<Rightarrow> string list \<Rightarrow> session_summary" where
  \<comment> \<open>the transcript is the list of the lines that \<^verbatim>\<open>readline\<close> yields\<close>
  "parseSessionFile env meta rng timelineLimit lines =
    summarize meta timelineLimit (parseLines env rng lines)"

section \<open>Fleet aggregator\<close>

record filter =
  f_agent :: "string option"
  f_channel :: "string option"

definition sessionPasses :: "filter \<Rightarrow> session_summary \<Rightarrow> bool" where
  \<comment> \<open>the predicate of \<^verbatim>\<open>sessions.filter\<close>; a filter field applies when it is truthy\<close>
  "sessionPasses flt session =
    (if (case f_agent flt of Some a \<Rightarrow> a \<noteq> [] \<and> ss_agentId session \<noteq> a | None \<Rightarrow> False) then False
     else if (case f_channel flt of
                Some c \<Rightarrow> c \<noteq> [] \<and> (case ss_channel session of Some ch \<Rightarrow> ch | None \<Rightarrow> []) \<noteq> c
              | None \<Rightarrow> False) then False
     else True)"

record latency_acc =
  la_count :: nat
  la_sum :: rat
  la_min :: "rat option"
  la_max :: rat
  la_p95Max :: rat

definition emptyLatency :: latency_acc where
  \<comment> \<open>\<open>la_min = None\<close> is \<^verbatim>\<open>Number.POSITIVE_INFINITY\<close>\<close>
  "emptyLatency = \<lparr> la_count = 0, la_sum = 0, la_min = None, la_max = 0, la_p95Max = 0 \<rparr>"

definition foldLatency :: "latency_acc \<Rightarrow> latency_stats option \<Rightarrow> latency_acc" where
  \<comment> \<open>\<^verbatim>\<open>if (x.latency?.count) { ... }\<close>, for a session and for a day alike\<close>
  "foldLatency acc lat =
    (case lat of
       None \<Rightarrow> acc
     | Some l \<Rightarrow>
        if ls_count l = 0 then acc
        else \<lparr> la_count = la_count acc + ls_count l,
               la_sum = la_sum acc + ls_avgMs l * of_nat (ls_count l),
               la_min = Some (case la_min acc of None \<Rightarrow> ls_minMs l | Some m \<Rightarrow> min m (ls_minMs l)),
               la_max = max (la_max acc) (ls_maxMs l),
               la_p95Max = max (la_p95Max acc) (ls_p95Ms l) \<rparr>)"

record fleet_latency =
  fl_count :: nat
  fl_avgMs :: rat
  fl_minMs :: "rat option"
  fl_maxMs :: rat
  fl_p95Ms :: rat

definition latencyStatsOf :: "latency_acc \<Rightarrow> fleet_latency option" where
  "latencyStatsOf acc =
    (if 0 < la_count acc
     then Some \<lparr> fl_count = la_count acc, fl_avgMs = la_sum acc / of_nat (la_count acc),
                 fl_minMs = la_min acc, fl_maxMs = la_max acc, fl_p95Ms = la_p95Max acc \<rparr>
     else None)"

record model_row =
  mr_provider :: "string option"
  mr_model :: "string option"
  mr_count :: nat
  mr_sessions :: nat
  mr_totals :: totals

record provider_row =
  pr_provider :: "string option"
  pr_count :: nat
  pr_sessions :: nat
  pr_totals :: totals

record agent_row =
  ar_agentId :: string
  ar_sessions :: nat
  ar_totals :: totals

record channel_row =
  cr_channel :: string
  cr_sessions :: nat
  cr_totals :: totals

record fleet_day_acc =
  fda_date :: string
  fda_tokens :: rat
  fda_cost :: rat
  fda_messages :: nat
  fda_toolCalls :: nat
  fda_errors :: nat
  fda_latency :: latency_acc

record fleet_day =
  fd_date :: string
  fd_tokens :: rat
  fd_cost :: rat
  fd_messages :: nat
  fd_toolCalls :: nat
  fd_errors :: nat
  fd_latency :: "fleet_latency option"

record agg_state =
  ag_totals :: totals
  ag_messages :: message_counts
  ag_latency :: latency_acc
  ag_toolsMap :: "(string \<times> nat) list"
  ag_byModelMap :: "(string \<times> model_row) list"
  ag_byProviderMap :: "(string \<times> provider_row) list"
  ag_byAgentMap :: "(string \<times> agent_row) list"
  ag_byChannelMap :: "(string \<times> channel_row) list"
  ag_dailyMap :: "(string \<times> fleet_day_acc) list"

definition foldModelRow :: "(string \<times> model_row) list \<Rightarrow> model_bucket \<Rightarrow> (string \<times> model_row) list" where
  "foldModelRow byModelMap model =
    (let modelKey = modelKeyOf (mb_provider model) (mb_model model);
         modelRow = mapGetOr byModelMap modelKey
            \<lparr> mr_provider = mb_provider model, mr_model = mb_model model, mr_count = 0,
              mr_sessions = 0, mr_totals = createTotals \<rparr>
     in mapSet modelKey
          (modelRow \<lparr> mr_count := mr_count modelRow + mb_count model,
                      mr_sessions := mr_sessions modelRow + 1,
                      mr_totals := mergeTotals (mr_totals modelRow) (mb_totals model) \<rparr>)
          byModelMap)"

definition foldProviderRow ::
  "(string \<times> provider_row) list \<Rightarrow> model_bucket \<Rightarrow> (string \<times> provider_row) list" where
  "foldProviderRow byProviderMap model =
    (let providerKey = (case mb_provider model of Some p \<Rightarrow> p | None \<Rightarrow> ''unknown'');
         providerRow = mapGetOr byProviderMap providerKey
            \<lparr> pr_provider = mb_provider model, pr_count = 0, pr_sessions = 0,
              pr_totals = createTotals \<rparr>
     in mapSet providerKey
          (providerRow \<lparr> pr_count := pr_count providerRow + mb_count model,
                         pr_sessions := pr_sessions providerRow + 1,
                         pr_totals := mergeTotals (pr_totals providerRow) (mb_totals model) \<rparr>)
          byProviderMap)"

definition foldAgentRow :: "(string \<times> agent_row) list \<Rightarrow> session_summary \<Rightarrow> (string \<times> agent_row) list" where
  "foldAgentRow byAgentMap session =
    (let agentRow = mapGetOr byAgentMap (ss_agentId session)
            \<lparr> ar_agentId = ss_agentId session, ar_sessions = 0, ar_totals = createTotals \<rparr>
     in mapSet (ss_agentId session)
          (agentRow \<lparr> ar_sessions := ar_sessions agentRow + 1,
                      ar_totals := mergeTotals (ar_totals agentRow) (ss_totals session) \<rparr>)
          byAgentMap)"

definition foldChannelRow ::
  "(string \<times> channel_row) list \<Rightarrow> session_summary \<Rightarrow> (string \<times> channel_row) list" where
  "foldChannelRow byChannelMap session =
    (let channelKey = (case ss_channel session of Some c \<Rightarrow> c | None \<Rightarrow> ''unknown'');
         channelRow = mapGetOr byChannelMap channelKey
            \<lparr> cr_channel = channelKey, cr_sessions = 0, cr_totals = createTotals \<rparr>
     in mapSet channelKey
          (channelRow \<lparr> cr_sessions := cr_sessions channelRow + 1,
                        cr_totals := mergeTotals (cr_totals channelRow) (ss_totals session) \<rparr>)
          byChannelMap)"

definition foldDay :: "(string \<times> fleet_day_acc) list \<Rightarrow> session_day \<Rightarrow> (string \<times> fleet_day_acc) list" where
  "foldDay dailyMap day =
    (let daily = mapGetOr dailyMap (sd_date day)
            \<lparr> fda_date = sd_date day, fda_tokens = 0, fda_cost = 0, fda_messages = 0,
              fda_toolCalls = 0, fda_errors = 0, fda_latency = emptyLatency \<rparr>
     in mapSet (sd_date day)
          \<lparr> fda_date = fda_date daily,
            fda_tokens = fda_tokens daily + sd_tokens day,
            fda_cost = fda_cost daily + sd_cost day,
            fda_messages = fda_messages daily + sd_messages day,
            fda_toolCalls = fda_toolCalls daily + sd_toolCalls day,
            fda_errors = fda_errors daily + sd_errors day,
            fda_latency = foldLatency (fda_latency daily) (sd_latency day) \<rparr>
          dailyMap)"

definition mergeMessages :: "message_counts \<Rightarrow> message_counts \<Rightarrow> message_counts" where
  "mergeMessages messages mc =
    \<lparr> mc_total = mc_total messages + mc_total mc,
      mc_user = mc_user messages + mc_user mc,
      mc_assistant = mc_assistant messages + mc_assistant mc,
      mc_toolCalls = mc_toolCalls messages + mc_toolCalls mc,
      mc_toolResults = mc_toolResults messages + mc_toolResults mc,
      mc_errors = mc_errors messages + mc_errors mc \<rparr>"

definition aggregateStep :: "agg_state \<Rightarrow> session_summary \<Rightarrow> agg_state" where
  \<comment> \<open>the body of \<^verbatim>\<open>for (const session of filtered)\<close>; the context rows are left out\<close>
  "aggregateStep acc session =
    \<lparr> ag_totals = mergeTotals (ag_totals acc) (ss_totals session),
      ag_messages = mergeMessages (ag_messages acc) (ss_messageCounts session),
      ag_latency = foldLatency (ag_latency acc) (ss_latency session),
      ag_toolsMap = foldl (\<lambda>m tool. mapSet (tr_name tool) (mapGetOr m (tr_name tool) 0 + tr_count tool) m)
                      (ag_toolsMap acc) (tu_tools (ss_toolUsage session)),
      ag_byModelMap = foldl foldModelRow (ag_byModelMap acc) (ss_modelUsage session),
      ag_byProviderMap = foldl foldProviderRow (ag_byProviderMap acc) (ss_modelUsage session),
      ag_byAgentMap = foldAgentRow (ag_byAgentMap acc) session,
      ag_byChannelMap = foldChannelRow (ag_byChannelMap acc) session,
      ag_dailyMap = foldl foldDay (ag_dailyMap acc) (ss_daily session) \<rparr>"

definition emptyAggregate :: agg_state where
  "emptyAggregate =
    \<lparr> ag_totals = createTotals,
      ag_messages = \<lparr> mc_total = 0, mc_user = 0, mc_assistant = 0, mc_toolCalls = 0,
                      mc_toolResults = 0, mc_errors = 0 \<rparr>,
      ag_latency = emptyLatency,
      ag_toolsMap = [], ag_byModelMap = [], ag_byProviderMap = [], ag_byAgentMap = [],
      ag_byChannelMap = [], ag_dailyMap = [] \<rparr>"

record aggregated =
  filtered :: "session_summary list"
  totalsOut :: totals
  messages :: message_counts
  latency :: "fleet_latency option"
  daily :: "fleet_day list"
  tools :: "tool_row list"
  byModel :: "model_row list"
  byProvider :: "provider_row list"
  byAgent :: "agent_row list"
  byChannel :: "channel_row list"

definition fleetDayOf :: "fleet_day_acc \<Rightarrow> fleet_day" where
  "fleetDayOf day =
    \<lparr> fd_date = fda_date day, fd_tokens = fda_tokens day, fd_cost = fda_cost day,
      fd_messages = fda_messages day, fd_toolCalls = fda_toolCalls day, fd_errors = fda_errors day,
      fd_latency = latencyStatsOf (fda_latency day) \<rparr>"

definition aggregateSessions :: "session_summary list \<Rightarrow> filter \<Rightarrow> aggregated" where
  "aggregateSessions sessions flt =
    (let filteredSessions = filter (sessionPasses flt) sessions;
         acc = foldl aggregateStep emptyAggregate filteredSessions
     in \<lparr> filtered = filteredSessions,
          totalsOut = ag_totals acc,
          messages = ag_messages acc,
          latency = latencyStatsOf (ag_latency acc),
          daily = arraySort (\<lambda>a b. localeCompare (fd_date a) (fd_date b))
                    (map (\<lambda>(k, day). fleetDayOf day) (ag_dailyMap acc)),
          tools = arraySort (\<lambda>a b. of_nat (tr_count b) - of_nat (tr_count a))
                    (map (\<lambda>(name, count). \<lparr> tr_name = name, tr_count = count \<rparr>) (ag_toolsMap acc)),
          byModel = arraySort (\<lambda>a b. sortByCostThenTokens (mr_totals a) (mr_totals b))
                      (map snd (ag_byModelMap acc)),
          byProvider = arraySort (\<lambda>a b. sortByCostThenTokens (pr_totals a) (pr_totals b))
                         (map snd (ag_byProviderMap acc)),
          byAgent = arraySort (\<lambda>a b. sortByCostThenTokens (ar_totals a) (ar_totals b))
                      (map snd (ag_byAgentMap acc)),
          byChannel = arraySort (\<lambda>a b. sortByCostThenTokens (cr_totals a) (cr_totals b))
                        (map snd (ag_byChannelMap acc)) \<rparr>)"

section \<open>Orchestrator\<close>

definition sortSessionsByUpdatedAt :: "session_summary list \<Rightarrow> session_summary list" where
  \<comment> \<open>the last statement of \<^verbatim>\<open>collectSessionsFromState\<close>; \<^verbatim>\<open>updatedAt\<close> is always a number,
      so \<^verbatim>\<open>?? 0\<close> never applies\<close>
  "sortSessionsByUpdatedAt sessions =
    arraySort (\<lambda>a b. ss_updatedAt b - ss_updatedAt a) sessions"

definition sessionLimitOf :: "rat option \<Rightarrow> rat" where
  \<comment> \<open>\<open>None\<close>: \<^verbatim>\<open>options.sessionLimit\<close> is not a finite number\<close>
  "sessionLimitOf opt = (case opt of Some n \<Rightarrow> if 0 < n then n else 250 | None \<Rightarrow> 250)"

definition topSessions :: "session_summary list \<Rightarrow> filter \<Rightarrow> rat option \<Rightarrow> session_summary list" where
  \<comment> \<open>\<^verbatim>\<open>payload.sessions\<close> of \<^verbatim>\<open>collectOpenClawMetrics\<close>, from the summaries in the order they
      were parsed; \<^verbatim>\<open>slice(0, n)\<close> truncates \<open>n\<close>\<close>
  "topSessions parsed flt sessionLimitOpt =
    take (nat \<lfloor>sessionLimitOf sessionLimitOpt\<rfloor>)
      (filtered (aggregateSessions (sortSessionsByUpdatedAt parsed) flt))"

section \<open>Anomaly detector: token spikes\<close>

record token_spike =
  sp_date :: string
  sp_tokens :: rat
  sp_baselineTokens :: rat
  sp_ratio :: rat

definition calcMean :: "rat list \<Rightarrow> rat" where
  "calcMean vals = (if vals = [] then 0 else foldl (\<lambda>sum n. sum + n) 0 vals / of_nat (length vals))"

definition tokenSpikesOf :: "fleet_day list \<Rightarrow> token_spike list" where
  \<comment> \<open>the first block of \<^verbatim>\<open>buildAnomalies\<close>: what it returns as \<^verbatim>\<open>tokenSpikes\<close>\<close>
  "tokenSpikesOf dailySeries =
    (if 4 \<le> length dailySeries
     then
       (let ordered = arraySort (\<lambda>a b. localeCompare (fd_date a) (fd_date b)) dailySeries;
            lastDay = last ordered;
            previous = filter (\<lambda>n. 0 < n) (map fd_tokens (butlast ordered))
        in if 3 \<le> length previous
           then
             (let baseline = calcMean previous;
                  ratio = (if 0 < baseline then fd_tokens lastDay / baseline else 0)
              in if 5000 < fd_tokens lastDay \<and> 23 / 10 \<le> ratio
                 then [\<lparr> sp_date = fd_date lastDay, sp_tokens = fd_tokens lastDay,
                         sp_baselineTokens = baseline, sp_ratio = ratio \<rparr>]
                 else [])
           else [])
     else [])"

section \<open>Vocabulary of the properties\<close>

definition partKeys :: "string list" where
  \<comment> \<open>every field name that \<open>normalizeUsage\<close> reads for one of the four token categories\<close>
  "partKeys = [''input'', ''inputTokens'', ''prompt_tokens'', ''promptTokens'',
     ''output'', ''outputTokens'', ''completion_tokens'', ''completionTokens'',
     ''cacheRead'', ''cache_read_input_tokens'', ''cacheReadInputTokens'',
     ''cacheWrite'', ''cache_creation_input_tokens'', ''cacheWriteInputTokens'']"

fun rankedByCostThenTokens :: "('a \<Rightarrow> totals) \<Rightarrow> 'a list \<Rightarrow> bool" where
  \<comment> \<open>every adjacent pair \<open>(a, b)\<close>: cost of \<open>a\<close> at least that of \<open>b\<close>, and on equal cost the
      tokens of \<open>a\<close> at least those of \<open>b\<close>\<close>
  "rankedByCostThenTokens tot (a # b # rest) =
     (t_totalCost (tot b) \<le> t_totalCost (tot a)
      \<and> (t_totalCost (tot a) = t_totalCost (tot b) \<longrightarrow> t_totalTokens (tot b) \<le> t_totalTokens (tot a))
      \<and> rankedByCostThenTokens tot (b # rest))"
| "rankedByCostThenTokens tot _ = True"

fun rankedByCount :: "tool_row list \<Rightarrow> bool" where
  "rankedByCount (a # b # rest) = (tr_count b \<le> tr_count a \<and> rankedByCount (b # rest))"
| "rankedByCount _ = True"

text \<open>
  The rows of the five ranked tables of \<^verbatim>\<open>aggregates\<close>. A tool row is built as
  \<^verbatim>\<open>{ name, count }\<close>: it has no \<^verbatim>\<open>totals\<close>, so no cost and no tokens.
\<close>

datatype table_row =
    ToolRow tool_row
  | ModelRow model_row
  | ProviderRow provider_row
  | AgentRow agent_row
  | ChannelRow channel_row

fun rowTotals :: "table_row \<Rightarrow> totals option" where
  "rowTotals (ToolRow r) = None"
| "rowTotals (ModelRow r) = Some (mr_totals r)"
| "rowTotals (ProviderRow r) = Some (pr_totals r)"
| "rowTotals (AgentRow r) = Some (ar_totals r)"
| "rowTotals (ChannelRow r) = Some (cr_totals r)"

fun costRanked :: "table_row list \<Rightarrow> bool" where
  \<comment> \<open>the ranking order on rows: both rows of an adjacent pair have a cost, and they are in order\<close>
  "costRanked (a # b # rest) =
     ((case rowTotals a of
         None \<Rightarrow> False
       | Some ta \<Rightarrow>
          (case rowTotals b of
             None \<Rightarrow> False
           | Some tb \<Rightarrow> t_totalCost tb < t_totalCost ta
                        \<or> (t_totalCost ta = t_totalCost tb \<and> t_totalTokens tb \<le> t_totalTokens ta)))
      \<and> costRanked (b # rest))"
| "costRanked _ = True"

definition latencyRows :: "session_summary list \<Rightarrow> latency_stats list" where
  \<comment> \<open>the latency stats of the sessions that have a nonzero latency count\<close>
  "latencyRows sessions = filter (\<lambda>l. ls_count l \<noteq> 0) (List.map_filter ss_latency sessions)"

definition rankingOrder :: "session_summary list \<Rightarrow> session_summary list" where
  \<comment> \<open>sessions in the ranking order of the fleet tables\<close>
  "rankingOrder sessions =
    arraySort (\<lambda>a b. sortByCostThenTokens (ss_totals a) (ss_totals b)) sessions"

definition decodeLine :: "platform \<Rightarrow> string \<Rightarrow> jsobject option" where
  \<comment> \<open>the record a transcript line decodes to; \<open>None\<close> for a line that the loop skips before it
      looks at the record: blank, rejected by \<^verbatim>\<open>JSON.parse\<close>, or not an object\<close>
  "decodeLine env rawLine =
    (if trim rawLine = [] then None
     else (case JSON_parse env (trim rawLine) of
             None \<Rightarrow> None
           | Some parsed \<Rightarrow> asRecord (Some parsed)))"

definition timestampOf :: "platform \<Rightarrow> jsobject \<Rightarrow> rat option" where
  \<comment> \<open>the timestamp the parser resolves for a record\<close>
  "timestampOf env record = parseTimestampMs env record (messageOf record)"

definition usageOf :: "jsobject \<Rightarrow> usage option" where
  \<comment> \<open>the usage tuple the parser normalises for a record\<close>
  "usageOf record = normalizeUsage (usageRawOf record (messageOf record))"


definition keyOfRecord :: "jsobject \<Rightarrow> string" where
  \<comment> \<open>the model identity of a record: \<open>provider::model\<close>, \<open>unknown\<close> for what is missing\<close>
  "keyOfRecord record =
    modelKeyOf (providerOf record (messageOf record)) (modelOf record (messageOf record))"

definition assistantKeyOfLine :: "platform \<Rightarrow> range \<Rightarrow> string \<Rightarrow> string option" where
  \<comment> \<open>the model identity of a line that the parser processes as an assistant turn\<close>
  "assistantKeyOfLine env rng rawLine =
    (case decodeLine env rawLine of
       None \<Rightarrow> None
     | Some record \<Rightarrow>
         if inRange rng (timestampOf env record) \<and> roleOf (messageOf record) = Some Assistant
         then Some (keyOfRecord record) else None)"

definition assistantKeys :: "platform \<Rightarrow> range \<Rightarrow> string list \<Rightarrow> string list" where
  \<comment> \<open>the model identities of the assistant turns of a transcript, in order\<close>
  "assistantKeys env rng lines = List.map_filter (assistantKeyOfLine env rng) lines"

definition usageKeyOfLine :: "platform \<Rightarrow> range \<Rightarrow> string \<Rightarrow> string option" where
  \<comment> \<open>the model identity of a line that the parser processes and that yields a usage tuple\<close>
  "usageKeyOfLine env rng rawLine =
    (case decodeLine env rawLine of
       None \<Rightarrow> None
     | Some record \<Rightarrow>
         if inRange rng (timestampOf env record) \<and> usageOf record \<noteq> None
         then Some (keyOfRecord record) else None)"

definition usageKeys :: "platform \<Rightarrow> range \<Rightarrow> string list \<Rightarrow> string list" where
  "usageKeys env rng lines = List.map_filter (usageKeyOfLine env rng) lines"

definition lastKnownKey :: "string list \<Rightarrow> string option" where
  \<comment> \<open>the most recent model identity that is not unknown\<close>
  "lastKnownKey ks =
    (if filter (\<lambda>k. k \<noteq> ''unknown::unknown'') ks = [] then None
     else Some (last (filter (\<lambda>k. k \<noteq> ''unknown::unknown'') ks)))"

definition switchPositions :: "string list \<Rightarrow> nat list" where
  \<comment> \<open>the positions whose model identity is not unknown and differs from the most recent
      preceding one that is not unknown\<close>
  "switchPositions ks =
    filter (\<lambda>i. ks ! i \<noteq> ''unknown::unknown''
               \<and> (case lastKnownKey (take i ks) of None \<Rightarrow> False | Some p \<Rightarrow> p \<noteq> ks ! i))
      [0..<length ks]"

definition calcMeanSpec :: "rat list \<Rightarrow> rat" where
  \<comment> \<open>the mean of a non-empty list\<close>
  "calcMeanSpec xs = sum_list xs / of_nat (length xs)"

section \<open>Example transcripts\<close>

text \<open>
  Transcript lines used as concrete inputs, each with the value \<^verbatim>\<open>JSON.parse\<close> decodes it to.
  The example platform decodes exactly these lines and fails on every other text; it parses no
  date string, so the examples carry numeric timestamps.
\<close>

definition lineTools :: string where
  "lineTools = ''{\"message\":{\"role\":\"assistant\",\"content\":[{\"type\":\"tool_use\",\"name\":\"read\"},{\"type\":\"tool_use\",\"name\":\"read\"},{\"type\":\"tool_use\",\"name\":\"write\"}]}}''"

definition lineCheap :: string where
  "lineCheap = ''{\"message\":{\"role\":\"assistant\",\"usage\":{\"input\":10,\"cost\":{\"total\":1}}}}''"

definition lineCostly :: string where
  "lineCostly = ''{\"message\":{\"role\":\"assistant\",\"usage\":{\"input\":10,\"cost\":{\"total\":5}}}}''"

definition lineNegDuration :: string where
  "lineNegDuration = ''{\"message\":{\"role\":\"assistant\"},\"durationMs\":-5}''"

definition lineA :: string where
  "lineA = ''{\"message\":{\"role\":\"assistant\",\"model\":\"A\"}}''"

definition lineB :: string where
  "lineB = ''{\"message\":{\"role\":\"assistant\",\"model\":\"B\"}}''"

definition lineAu :: string where
  "lineAu = ''{\"message\":{\"role\":\"assistant\",\"model\":\"A\",\"usage\":{\"input\":5,\"output\":3}}}''"

definition lineBu :: string where
  "lineBu = ''{\"message\":{\"role\":\"assistant\",\"model\":\"B\",\"usage\":{\"input\":5,\"output\":3}}}''"

definition lineUser :: string where
  "lineUser = ''{\"message\":{\"role\":\"user\",\"timestamp\":1000}}''"

definition lineReply :: string where
  "lineReply = ''{\"message\":{\"role\":\"assistant\",\"timestamp\":1500}}''"

definition lineBareUsage :: string where
  "lineBareUsage = ''{\"usage\":{\"input\":5,\"output\":3}}''"

definition lineOldA :: string where
  "lineOldA = ''{\"message\":{\"role\":\"assistant\",\"model\":\"A\",\"timestamp\":100}}''"

definition lineOldUsage :: string where
  "lineOldUsage = ''{\"message\":{\"role\":\"assistant\",\"timestamp\":100,\"usage\":{\"input\":5,\"output\":3}}}''"

definition lineOldBare :: string where
  "lineOldBare = ''{\"message\":{\"timestamp\":100},\"usage\":{\"input\":5,\"output\":3}}''"

definition lineBareCost :: string where
  "lineBareCost = ''{\"usage\":{\"input\":5,\"output\":3,\"cost\":{\"total\":2,\"input\":1}}}''"

definition lineBareFlat :: string where
  "lineBareFlat = ''{\"usage\":{\"input\":5,\"output\":3},\"costTotal\":3}''"

definition exampleLines :: "(string \<times> json) list" where
  "exampleLines =
    [(lineTools,
        JObj [(''message'', JObj [(''role'', JStr ''assistant''),
           (''content'', JArr [JObj [(''type'', JStr ''tool_use''), (''name'', JStr ''read'')],
                               JObj [(''type'', JStr ''tool_use''), (''name'', JStr ''read'')],
                               JObj [(''type'', JStr ''tool_use''), (''name'', JStr ''write'')]])])]),
     (lineCheap,
        JObj [(''message'', JObj [(''role'', JStr ''assistant''),
           (''usage'', JObj [(''input'', JNum 10), (''cost'', JObj [(''total'', JNum 1)])])])]),
     (lineCostly,
        JObj [(''message'', JObj [(''role'', JStr ''assistant''),
           (''usage'', JObj [(''input'', JNum 10), (''cost'', JObj [(''total'', JNum 5)])])])]),
     (lineNegDuration,
        JObj [(''message'', JObj [(''role'', JStr ''assistant'')]), (''durationMs'', JNum (- 5))]),
     (lineA, JObj [(''message'', JObj [(''role'', JStr ''assistant''), (''model'', JStr ''A'')])]),
     (lineB, JObj [(''message'', JObj [(''role'', JStr ''assistant''), (''model'', JStr ''B'')])]),
     (lineAu,
        JObj [(''message'', JObj [(''role'', JStr ''assistant''), (''model'', JStr ''A''),
           (''usage'', JObj [(''input'', JNum 5), (''output'', JNum 3)])])]),
     (lineBu,
        JObj [(''message'', JObj [(''role'', JStr ''assistant''), (''model'', JStr ''B''),
           (''usage'', JObj [(''input'', JNum 5), (''output'', JNum 3)])])]),
     (lineUser, JObj [(''message'', JObj [(''role'', JStr ''user''), (''timestamp'', JNum 1000)])]),
     (lineReply, JObj [(''message'', JObj [(''role'', JStr ''assistant''), (''timestamp'', JNum 1500)])]),
     (lineBareUsage, JObj [(''usage'', JObj [(''input'', JNum 5), (''output'', JNum 3)])]),
     (lineOldA,
        JObj [(''message'', JObj [(''role'', JStr ''assistant''), (''model'', JStr ''A''),
           (''timestamp'', JNum 100)])]),
     (lineOldUsage,
        JObj [(''message'', JObj [(''role'', JStr ''assistant''), (''timestamp'', JNum 100),
           (''usage'', JObj [(''input'', JNum 5), (''output'', JNum 3)])])]),
     (lineOldBare,
        JObj [(''message'', JObj [(''timestamp'', JNum 100)]),
              (''usage'', JObj [(''input'', JNum 5), (''output'', JNum 3)])]),
     (lineBareCost,
        JObj [(''usage'', JObj [(''input'', JNum 5), (''output'', JNum 3),
           (''cost'', JObj [(''total'', JNum 2), (''input'', JNum 1)])])]),
     (lineBareFlat,
        JObj [(''usage'', JObj [(''input'', JNum 5), (''output'', JNum 3)]), (''costTotal'', JNum 3)])]"

definition examplePlatform :: platform where
  "examplePlatform =
    \<lparr> JSON_parse = map_of exampleLines, Date_parse = (\<lambda>str. None),
      dayKeyFromMs = (\<lambda>ms. ''1970-01-01'') \<rparr>"

definition allTime :: range where
  \<comment> \<open>\<^verbatim>\<open>days = "all"\<close>, collected at time 2000\<close>
  "allTime = \<lparr> startMs = None, endMs = 2000 \<rparr>"

definition recentWindow :: range where
  \<comment> \<open>a window of the last 1500 milliseconds, collected at time 2000\<close>
  "recentWindow = \<lparr> startMs = Some 500, endMs = 2000 \<rparr>"

definition noFilter :: filter where
  "noFilter = \<lparr> f_agent = None, f_channel = None \<rparr>"

definition exampleSession :: "string \<Rightarrow> rat \<Rightarrow> string list \<Rightarrow> session_summary" where
  \<comment> \<open>the summary of a transcript of agent \<open>agent\<close> last updated at \<open>updated\<close>\<close>
  "exampleSession agent updated lines =
    parseSessionFile examplePlatform
      \<lparr> sm_id = agent @ '':session'', sm_agentId = agent, sm_channel = None, sm_updatedAt = updated \<rparr>
      allTime 240 lines"

definition recentSession :: "string \<Rightarrow> rat \<Rightarrow> string list \<Rightarrow> session_summary" where
  \<comment> \<open>the same transcript summarised over \<open>recentWindow\<close>\<close>
  "recentSession agent updated lines =
    parseSessionFile examplePlatform
      \<lparr> sm_id = agent @ '':session'', sm_agentId = agent, sm_channel = None, sm_updatedAt = updated \<rparr>
      recentWindow 240 lines"

definition fleetDay :: "string \<Rightarrow> rat \<Rightarrow> fleet_day" where
  \<comment> \<open>a day of the fleet series with the given date and tokens\<close>
  "fleetDay date tokens =
    \<lparr> fd_date = date, fd_tokens = tokens, fd_cost = 0, fd_messages = 0, fd_toolCalls = 0,
      fd_errors = 0, fd_latency = None \<rparr>"

definition spikeSeries :: "fleet_day list" where
  "spikeSeries =
    [fleetDay ''2026-01-05'' 6000, fleetDay ''2026-01-01'' 1000, fleetDay ''2026-01-02'' 1100,
     fleetDay ''2026-01-03'' 900, fleetDay ''2026-01-04'' 1050]"

definition flatSeries :: "fleet_day list" where
  "flatSeries =
    [fleetDay ''2026-01-01'' 1000, fleetDay ''2026-01-02'' 1000, fleetDay ''2026-01-03'' 1000,
     fleetDay ''2026-01-04'' 1000, fleetDay ''2026-01-05'' 1800]"

definition idleDaySeries :: "fleet_day list" where
  \<comment> \<open>the spike series with one more day, on which nothing was used\<close>
  "idleDaySeries =
    [fleetDay ''2026-01-05'' 6000, fleetDay ''2026-01-01'' 1000, fleetDay ''2026-01-02'' 1100,
     fleetDay ''2025-12-31'' 0, fleetDay ''2026-01-03'' 900, fleetDay ''2026-01-04'' 1050]"

section \<open>Basic facts\<close>

lemma orElse_simps [simp]: "orElse None b = b" "orElse (Some x) b = Some x"
  by (simp_all add: orElse_def)

lemma getProp_simps [simp]:
  "getProp [] k = None"
  "getProp ((k', v) # kvs) k = (if k' = k then Some v else getProp kvs k)"
  by (simp_all add: getProp_def)

section \<open>Latency percentile\<close>

lemma insertBy_minus: "insertBy (\<lambda>a b. a - b) x ys = insort x ys"
  by (induction ys) auto

lemma arraySort_minus: "arraySort (\<lambda>a b. a - b) xs = sort xs"
  by (induction xs) (simp_all add: arraySort_def insertBy_minus)

lemma p95_index_in_range:
  assumes "0 < n"
  shows "nat \<lfloor>of_nat n * (95 / 100 :: rat)\<rfloor> \<le> n - 1"
proof -
  have "of_nat n * (95 / 100 :: rat) < of_nat n" using assms by simp
  then have "\<lfloor>of_nat n * (95 / 100 :: rat)\<rfloor> < int n" by (simp add: floor_less_iff)
  then show ?thesis by linarith
qed

text \<open>
  C8. For a non-empty sample list, the p95 of \<open>computeLatencyStats\<close> is the element at index
  \<open>floor (0.95 * n)\<close> of the samples sorted ascending; for the samples 10, 20, ..., 100 it is 100.
\<close>

theorem computeLatencyStats_p95_nearest_rank:
  "(vals \<noteq> [] \<longrightarrow>
      map_option ls_p95Ms (computeLatencyStats vals)
        = Some (sort vals ! nat \<lfloor>(95 / 100 :: rat) * of_nat (length vals)\<rfloor>))
   \<and> map_option ls_p95Ms (computeLatencyStats [10, 20, 30, 40, 50, 60, 70, 80, 90, 100]) = Some 100"
proof
  show "vals \<noteq> [] \<longrightarrow>
      map_option ls_p95Ms (computeLatencyStats vals)
        = Some (sort vals ! nat \<lfloor>(95 / 100 :: rat) * of_nat (length vals)\<rfloor>)"
  proof
    assume ne: "vals \<noteq> []"
    then have "0 < length vals" by simp
    from p95_index_in_range [OF this]
    have "min (length vals - 1) (nat \<lfloor>of_nat (length vals) * (95 / 100 :: rat)\<rfloor>)
            = nat \<lfloor>of_nat (length vals) * (95 / 100 :: rat)\<rfloor>"
      by simp
    with ne show "map_option ls_p95Ms (computeLatencyStats vals)
        = Some (sort vals ! nat \<lfloor>(95 / 100 :: rat) * of_nat (length vals)\<rfloor>)"
      by (simp add: computeLatencyStats_def Let_def arraySort_minus mult.commute)
  qed
next
  have idx: "\<lfloor>(19 / 2 :: rat)\<rfloor> = 9" by (simp add: floor_eq_iff)
  show "map_option ls_p95Ms (computeLatencyStats [10, 20, 30, 40, 50, 60, 70, 80, 90, 100]) = Some 100"
    by (simp add: computeLatencyStats_def Let_def arraySort_minus idx)
qed

theorem computeLatencyStats_p95_witness:
  "[3, 1, 2 :: rat] \<noteq> [] \<and> map_option ls_p95Ms (computeLatencyStats [3, 1, 2]) = Some 3"
proof -
  have idx: "nat \<lfloor>(95 / 100 :: rat) * of_nat (length [3, 1, 2 :: rat])\<rfloor> = 2"
  proof -
    have "(95 / 100 :: rat) * of_nat (length [3, 1, 2 :: rat]) = 57 / 20" by simp
    moreover have "\<lfloor>(57 / 20 :: rat)\<rfloor> = 2" by (simp add: floor_eq_iff)
    ultimately show ?thesis by simp
  qed
  have "map_option ls_p95Ms (computeLatencyStats [3, 1, 2])
          = Some (sort [3, 1, 2 :: rat] ! nat \<lfloor>(95 / 100 :: rat) * of_nat (length [3, 1, 2 :: rat])\<rfloor>)"
    using computeLatencyStats_p95_nearest_rank [of "[3, 1, 2]"] by blast
  then show ?thesis unfolding idx by simp
qed

section \<open>Usage tuples\<close>

lemma firstFinite_nonneg:
  assumes "\<forall>k\<in>set ks. \<forall>n. getProp record k = Some (JNum n) \<longrightarrow> 0 \<le> n"
  shows "0 \<le> (case firstFinite record ks of Some n \<Rightarrow> n | None \<Rightarrow> 0)"
  using assms
proof (induction ks)
  case Nil
  then show ?case by simp
next
  case (Cons k ks)
  show ?case
  proof (cases "toFinite (getProp record k)")
    case None
    then show ?thesis using Cons by simp
  next
    case (Some n)
    then have "getProp record k = Some (JNum n)"
      by (cases "getProp record k" rule: toFinite.cases) simp_all
    then show ?thesis using Cons.prems Some by simp
  qed
qed

text \<open>
  C2 as stated fails: a record may supply a total that is smaller than the sum of its parts, and
  \<open>normalizeUsage\<close> returns it as it is. Here \<^verbatim>\<open>{input: 5, output: 3, total: 2}\<close> gives a
  tuple whose total 2 is below 5 + 3.
\<close>

theorem normalizeUsage_total_below_sum_counterexample:
  "normalizeUsage (Some (JObj [(''input'', JNum 5), (''output'', JNum 3), (''total'', JNum 2)]))
     = Some \<lparr> u_input = 5, u_output = 3, u_cacheRead = 0, u_cacheWrite = 0, u_total = 2 \<rparr>
   \<and> \<not> (u_input \<lparr> u_input = 5, u_output = 3, u_cacheRead = 0, u_cacheWrite = 0, u_total = 2 \<rparr>
          + u_output \<lparr> u_input = 5, u_output = 3, u_cacheRead = 0, u_cacheWrite = 0, u_total = 2 \<rparr>
          + u_cacheRead \<lparr> u_input = 5, u_output = 3, u_cacheRead = 0, u_cacheWrite = 0, u_total = 2 \<rparr>
          + u_cacheWrite \<lparr> u_input = 5, u_output = 3, u_cacheRead = 0, u_cacheWrite = 0, u_total = 2 \<rparr>
        \<le> u_total \<lparr> u_input = 5, u_output = 3, u_cacheRead = 0, u_cacheWrite = 0, u_total = 2 \<rparr>)"
  by (simp add: normalizeUsage_def)

text \<open>
  C2, amended. Every field of a returned usage tuple is non-negative. When the record supplies no
  total, the total is at most the sum of the four parts, and equals it when no part field of the
  record is negative. When the record supplies a total \<open>t\<close>, the total is \<open>max 0 t\<close>, whatever
  the parts are.
\<close>

theorem normalizeUsage_fields:
  assumes "normalizeUsage raw = Some u" and "asRecord raw = Some record"
  shows "0 \<le> u_input u \<and> 0 \<le> u_output u \<and> 0 \<le> u_cacheRead u \<and> 0 \<le> u_cacheWrite u \<and> 0 \<le> u_total u
    \<and> (firstFinite record [''total'', ''totalTokens'', ''total_tokens''] = None \<longrightarrow>
         u_total u \<le> u_input u + u_output u + u_cacheRead u + u_cacheWrite u)
    \<and> (firstFinite record [''total'', ''totalTokens'', ''total_tokens''] = None
         \<and> (\<forall>k\<in>set partKeys. \<forall>n. getProp record k = Some (JNum n) \<longrightarrow> 0 \<le> n) \<longrightarrow>
         u_total u = u_input u + u_output u + u_cacheRead u + u_cacheWrite u)
    \<and> (\<forall>t. firstFinite record [''total'', ''totalTokens'', ''total_tokens''] = Some t \<longrightarrow>
         u_total u = max 0 t)"
proof -
  define i where "i = (case firstFinite record
      [''input'', ''inputTokens'', ''prompt_tokens'', ''promptTokens''] of Some n \<Rightarrow> n | None \<Rightarrow> 0)"
  define out where "out = (case firstFinite record
      [''output'', ''outputTokens'', ''completion_tokens'', ''completionTokens''] of Some n \<Rightarrow> n | None \<Rightarrow> 0)"
  define cr where "cr = (case firstFinite record
      [''cacheRead'', ''cache_read_input_tokens'', ''cacheReadInputTokens''] of Some n \<Rightarrow> n | None \<Rightarrow> 0)"
  define cw where "cw = (case firstFinite record
      [''cacheWrite'', ''cache_creation_input_tokens'', ''cacheWriteInputTokens''] of Some n \<Rightarrow> n | None \<Rightarrow> 0)"
  define tt where "tt = (case firstFinite record [''total'', ''totalTokens'', ''total_tokens'']
      of Some n \<Rightarrow> n | None \<Rightarrow> i + out + cr + cw)"
  have u: "u = \<lparr> u_input = max 0 i, u_output = max 0 out, u_cacheRead = max 0 cr,
                 u_cacheWrite = max 0 cw, u_total = max 0 tt \<rparr>"
    using assms unfolding normalizeUsage_def Let_def i_def out_def cr_def cw_def tt_def
    by (simp split: if_splits)
  have nonneg: "(\<forall>k\<in>set partKeys. \<forall>n. getProp record k = Some (JNum n) \<longrightarrow> 0 \<le> n)
      \<Longrightarrow> 0 \<le> i \<and> 0 \<le> out \<and> 0 \<le> cr \<and> 0 \<le> cw"
    unfolding i_def out_def cr_def cw_def
    by (intro conjI firstFinite_nonneg) (simp_all add: partKeys_def)
  show ?thesis
    unfolding u using nonneg by (auto simp: tt_def max_def)
qed

theorem normalizeUsage_fields_witness:
  "normalizeUsage (Some (JObj [(''input'', JNum 5), (''output'', JNum 3)]))
     = Some \<lparr> u_input = 5, u_output = 3, u_cacheRead = 0, u_cacheWrite = 0, u_total = 8 \<rparr>
   \<and> asRecord (Some (JObj [(''input'', JNum 5), (''output'', JNum 3)]))
     = Some [(''input'', JNum 5), (''output'', JNum 3)]
   \<and> firstFinite [(''input'', JNum 5), (''output'', JNum 3)] [''total'', ''totalTokens'', ''total_tokens''] = None
   \<and> u_total \<lparr> u_input = 5, u_output = 3, u_cacheRead = 0, u_cacheWrite = 0, u_total = 8 \<rparr>
       = u_input \<lparr> u_input = 5, u_output = 3, u_cacheRead = 0, u_cacheWrite = 0, u_total = 8 \<rparr>
         + u_output \<lparr> u_input = 5, u_output = 3, u_cacheRead = 0, u_cacheWrite = 0, u_total = 8 \<rparr>
         + u_cacheRead \<lparr> u_input = 5, u_output = 3, u_cacheRead = 0, u_cacheWrite = 0, u_total = 8 \<rparr>
         + u_cacheWrite \<lparr> u_input = 5, u_output = 3, u_cacheRead = 0, u_cacheWrite = 0, u_total = 8 \<rparr>"
proof -
  have n: "normalizeUsage (Some (JObj [(''input'', JNum 5), (''output'', JNum 3)]))
     = Some \<lparr> u_input = 5, u_output = 3, u_cacheRead = 0, u_cacheWrite = 0, u_total = 8 \<rparr>"
    by (simp add: normalizeUsage_def)
  have r: "asRecord (Some (JObj [(''input'', JNum 5), (''output'', JNum 3)]))
     = Some [(''input'', JNum 5), (''output'', JNum 3)]"
    by simp
  have t: "firstFinite [(''input'', JNum 5), (''output'', JNum 3)]
             [''total'', ''totalTokens'', ''total_tokens''] = None"
    by simp
  have p: "\<forall>k\<in>set partKeys. \<forall>n. getProp [(''input'', JNum 5), (''output'', JNum 3)] k = Some (JNum n) \<longrightarrow> 0 \<le> n"
    by (simp add: partKeys_def)
  from normalizeUsage_fields [OF n r] t p n r show ?thesis by blast
qed

section \<open>Sorting with a comparator\<close>

lemma set_insertBy: "set (insertBy cmp x ys) = insert x (set ys)"
  by (induction ys) auto

lemma mset_insertBy: "mset (insertBy cmp x ys) = add_mset x (mset ys)"
  by (induction ys) auto

lemma mset_arraySort: "mset (arraySort cmp xs) = mset xs"
  by (induction xs) (simp_all add: arraySort_def mset_insertBy)

lemma set_arraySort: "set (arraySort cmp xs) = set xs"
  by (induction xs) (simp_all add: arraySort_def set_insertBy)

lemma length_arraySort: "length (arraySort cmp xs) = length xs"
  by (metis mset_arraySort size_mset)

lemma sorted_wrt_insertBy:
  assumes total: "\<And>a b. \<not> cmp a b \<le> 0 \<Longrightarrow> cmp b a \<le> 0"
    and trans: "\<And>a b c. cmp a b \<le> 0 \<Longrightarrow> cmp b c \<le> 0 \<Longrightarrow> cmp a c \<le> 0"
    and "sorted_wrt (\<lambda>a b. cmp a b \<le> 0) ys"
  shows "sorted_wrt (\<lambda>a b. cmp a b \<le> 0) (insertBy cmp x ys)"
  using assms(3)
proof (induction ys)
  case Nil
  then show ?case by simp
next
  case (Cons y ys)
  show ?case
  proof (cases "cmp x y \<le> 0")
    case True
    then have "\<forall>z\<in>set ys. cmp x z \<le> 0" using Cons.prems trans by auto
    with True Cons.prems show ?thesis by simp
  next
    case False
    then have "cmp y x \<le> 0" by (rule total)
    with False Cons show ?thesis by (auto simp: set_insertBy)
  qed
qed

lemma sorted_wrt_arraySort:
  assumes total: "\<And>a b. \<not> cmp a b \<le> 0 \<Longrightarrow> cmp b a \<le> 0"
    and trans: "\<And>a b c. cmp a b \<le> 0 \<Longrightarrow> cmp b c \<le> 0 \<Longrightarrow> cmp a c \<le> 0"
  shows "sorted_wrt (\<lambda>a b. cmp a b \<le> 0) (arraySort cmp xs)"
proof (induction xs)
  case Nil
  then show ?case by (simp add: arraySort_def)
next
  case (Cons x xs)
  have "arraySort cmp (x # xs) = insertBy cmp x (arraySort cmp xs)"
    by (simp add: arraySort_def)
  with Cons sorted_wrt_insertBy [OF total trans] show ?case by simp
qed

lemma sortByCostThenTokens_le:
  "sortByCostThenTokens a b \<le> 0 \<longleftrightarrow>
     t_totalCost b < t_totalCost a \<or> (t_totalCost a = t_totalCost b \<and> t_totalTokens b \<le> t_totalTokens a)"
  by (auto simp: sortByCostThenTokens_def Let_def)

lemma sorted_wrt_ranked:
  "sorted_wrt (\<lambda>a b. sortByCostThenTokens (tot a) (tot b) \<le> 0) xs \<Longrightarrow> rankedByCostThenTokens tot xs"
  by (induction tot xs rule: rankedByCostThenTokens.induct) (auto simp: sortByCostThenTokens_le)

lemma arraySort_ranked:
  "rankedByCostThenTokens tot (arraySort (\<lambda>a b. sortByCostThenTokens (tot a) (tot b)) xs)"
proof (rule sorted_wrt_ranked, rule sorted_wrt_arraySort)
  fix a b assume "\<not> sortByCostThenTokens (tot a) (tot b) \<le> 0"
  then show "sortByCostThenTokens (tot b) (tot a) \<le> 0"
    by (auto simp: sortByCostThenTokens_le)
next
  fix a b c
  assume "sortByCostThenTokens (tot a) (tot b) \<le> 0" "sortByCostThenTokens (tot b) (tot c) \<le> 0"
  then show "sortByCostThenTokens (tot a) (tot c) \<le> 0"
    by (auto simp: sortByCostThenTokens_le)
qed

lemma sorted_wrt_rankedByCount:
  "sorted_wrt (\<lambda>a b. (of_nat (tr_count b) :: rat) - of_nat (tr_count a) \<le> 0) xs \<Longrightarrow> rankedByCount xs"
  by (induction xs rule: rankedByCount.induct) auto

lemma arraySort_rankedByCount:
  "rankedByCount (arraySort (\<lambda>a b. of_nat (tr_count b) - of_nat (tr_count a)) xs)"
  by (rule sorted_wrt_rankedByCount, rule sorted_wrt_arraySort) auto

section \<open>Ranked tables\<close>

text \<open>
  C1 as stated fails for the tools table: its rows are \<^verbatim>\<open>{ name, count }\<close>, ordered by
  \<^verbatim>\<open>b.count - a.count\<close>, and carry neither cost nor tokens. A session whose transcript calls
  \<^verbatim>\<open>read\<close> twice and \<^verbatim>\<open>write\<close> once gives a tools table of two rows that is not in the
  ranking order.
\<close>

theorem tools_table_not_cost_ranked_counterexample:
  "map tr_name (tools (aggregateSessions [exampleSession ''main'' 1 [lineTools]] noFilter))
     = [''read'', ''write'']
   \<and> map tr_count (tools (aggregateSessions [exampleSession ''main'' 1 [lineTools]] noFilter)) = [2, 1]
   \<and> \<not> costRanked (map ToolRow (tools (aggregateSessions [exampleSession ''main'' 1 [lineTools]] noFilter)))"
  by code_simp

text \<open>
  C1, amended. In the by-model, by-provider, by-agent and by-channel tables of the fleet
  aggregator, every adjacent pair \<open>(a, b)\<close> has the cost of \<open>a\<close> at least that of \<open>b\<close>, and on
  equal cost the tokens of \<open>a\<close> at least those of \<open>b\<close>. The tools table is ordered by call
  count, descending.
\<close>

theorem aggregateSessions_rankings:
  "rankedByCostThenTokens mr_totals (byModel (aggregateSessions sessions flt))
   \<and> rankedByCostThenTokens pr_totals (byProvider (aggregateSessions sessions flt))
   \<and> rankedByCostThenTokens ar_totals (byAgent (aggregateSessions sessions flt))
   \<and> rankedByCostThenTokens cr_totals (byChannel (aggregateSessions sessions flt))
   \<and> rankedByCount (tools (aggregateSessions sessions flt))"
  by (simp add: aggregateSessions_def Let_def arraySort_ranked arraySort_rankedByCount)

theorem aggregateSessions_rankings_witness:
  "map ar_agentId
     (byAgent (aggregateSessions
        [exampleSession ''main'' 2 [lineCheap], exampleSession ''ops'' 1 [lineCostly]] noFilter))
     = [''ops'', ''main'']
   \<and> rankedByCostThenTokens ar_totals
     (byAgent (aggregateSessions
        [exampleSession ''main'' 2 [lineCheap], exampleSession ''ops'' 1 [lineCostly]] noFilter))"
proof -
  have "map ar_agentId
     (byAgent (aggregateSessions
        [exampleSession ''main'' 2 [lineCheap], exampleSession ''ops'' 1 [lineCostly]] noFilter))
     = [''ops'', ''main'']"
    by code_simp
  with aggregateSessions_rankings
    [of "[exampleSession ''main'' 2 [lineCheap], exampleSession ''ops'' 1 [lineCostly]]" noFilter]
  show ?thesis by blast
qed

section \<open>The sessions of the payload\<close>

text \<open>
  C3 as stated fails: the sessions of the payload are in the order \<^verbatim>\<open>collectSessionsFromState\<close>
  left them in, most recently updated first, not in the ranking order. With a session limit of 1,
  the payload holds the recent session of cost 1 and not the older session of cost 5.
\<close>

theorem topSessions_not_by_cost_counterexample:
  "map ss_id
     (topSessions [exampleSession ''ops'' 1 [lineCostly], exampleSession ''main'' 2 [lineCheap]]
        noFilter (Some 1))
     = [''main:session'']
   \<and> map ss_id
     (take 1 (rankingOrder (filter (sessionPasses noFilter)
        [exampleSession ''ops'' 1 [lineCostly], exampleSession ''main'' 2 [lineCheap]])))
     = [''ops:session'']"
  by code_simp

lemma insertBy_desc:
  "insertBy (\<lambda>a b. f b - f a) x ys = insort_key (\<lambda>s. - f s) x ys"
  for f :: "'a \<Rightarrow> rat"
  by (induction ys) auto

lemma arraySort_desc:
  "arraySort (\<lambda>a b. f b - f a) xs = sort_key (\<lambda>s. - f s) xs"
  for f :: "'a \<Rightarrow> rat"
  by (induction xs) (simp_all add: arraySort_def insertBy_desc)

lemma arraySort_desc_stable:
  "filter (\<lambda>s. f s = v) (arraySort (\<lambda>a b. f b - f a) xs) = filter (\<lambda>s. f s = v) xs"
  for f :: "'a \<Rightarrow> rat"
proof -
  have "filter (\<lambda>s. - f s = - v) (sort_key (\<lambda>s. - f s) xs) = filter (\<lambda>s. - f s = - v) xs"
    by (rule sort_key_stable)
  then show ?thesis by (simp add: arraySort_desc)
qed

text \<open>
  C3, amended. The sessions list of the payload consists of the first \<open>sessionLimit\<close> sessions
  (the limit truncated to an integer) of the filtered set taken most recently updated first:
  a prefix of the list that holds exactly the sessions passing the filter, in descending order of
  \<^verbatim>\<open>updatedAt\<close>, sessions with the same \<^verbatim>\<open>updatedAt\<close> in the order they were parsed.
\<close>

theorem topSessions_most_recent_first:
  "topSessions parsed flt limitOpt
     = take (nat \<lfloor>sessionLimitOf limitOpt\<rfloor>) (filter (sessionPasses flt) (sortSessionsByUpdatedAt parsed))
   \<and> mset (filter (sessionPasses flt) (sortSessionsByUpdatedAt parsed))
     = mset (filter (sessionPasses flt) parsed)
   \<and> sorted_wrt (\<lambda>a b. ss_updatedAt b \<le> ss_updatedAt a)
       (filter (sessionPasses flt) (sortSessionsByUpdatedAt parsed))
   \<and> filter (\<lambda>s. ss_updatedAt s = v) (filter (sessionPasses flt) (sortSessionsByUpdatedAt parsed))
     = filter (\<lambda>s. ss_updatedAt s = v) (filter (sessionPasses flt) parsed)"
proof -
  have "sorted_wrt (\<lambda>a b. ss_updatedAt b - ss_updatedAt a \<le> 0) (sortSessionsByUpdatedAt parsed)"
    unfolding sortSessionsByUpdatedAt_def by (rule sorted_wrt_arraySort) auto
  then have "sorted_wrt (\<lambda>a b. ss_updatedAt b \<le> ss_updatedAt a) (sortSessionsByUpdatedAt parsed)"
    by simp
  then have "sorted_wrt (\<lambda>a b. ss_updatedAt b \<le> ss_updatedAt a)
       (filter (sessionPasses flt) (sortSessionsByUpdatedAt parsed))"
    by (rule sorted_wrt_filter)
  moreover have "mset (filter (sessionPasses flt) (sortSessionsByUpdatedAt parsed))
     = mset (filter (sessionPasses flt) parsed)"
    by (simp add: sortSessionsByUpdatedAt_def mset_arraySort)
  moreover have "topSessions parsed flt limitOpt
     = take (nat \<lfloor>sessionLimitOf limitOpt\<rfloor>) (filter (sessionPasses flt) (sortSessionsByUpdatedAt parsed))"
    by (simp add: topSessions_def aggregateSessions_def Let_def)
  moreover have "filter (\<lambda>s. ss_updatedAt s = v) (filter (sessionPasses flt) (sortSessionsByUpdatedAt parsed))
     = filter (\<lambda>s. ss_updatedAt s = v) (filter (sessionPasses flt) parsed)"
  proof -
    have "filter (\<lambda>s. ss_updatedAt s = v) (filter (sessionPasses flt) (sortSessionsByUpdatedAt parsed))
        = filter (sessionPasses flt) (filter (\<lambda>s. ss_updatedAt s = v) (sortSessionsByUpdatedAt parsed))"
      by (simp add: conj_commute)
    also have "\<dots> = filter (sessionPasses flt) (filter (\<lambda>s. ss_updatedAt s = v) parsed)"
      unfolding sortSessionsByUpdatedAt_def arraySort_desc_stable ..
    also have "\<dots> = filter (\<lambda>s. ss_updatedAt s = v) (filter (sessionPasses flt) parsed)"
      by (simp add: conj_commute)
    finally show ?thesis .
  qed
  ultimately show ?thesis by blast
qed

theorem topSessions_most_recent_first_witness:
  "map ss_id
     (topSessions
        [exampleSession ''beta'' 1 [lineCostly], exampleSession ''delta'' 1 [lineCheap],
         exampleSession ''main'' 2 [lineCheap]]
        noFilter (Some 2))
     = [''main:session'', ''beta:session'']
   \<and> filter (\<lambda>s. ss_updatedAt s = 1)
       (filter (sessionPasses noFilter)
          (sortSessionsByUpdatedAt
             [exampleSession ''beta'' 1 [lineCostly], exampleSession ''delta'' 1 [lineCheap],
              exampleSession ''main'' 2 [lineCheap]]))
     = filter (\<lambda>s. ss_updatedAt s = 1)
         (filter (sessionPasses noFilter)
            [exampleSession ''beta'' 1 [lineCostly], exampleSession ''delta'' 1 [lineCheap],
             exampleSession ''main'' 2 [lineCheap]])"
proof -
  have "map ss_id
     (take (nat \<lfloor>sessionLimitOf (Some 2)\<rfloor>) (filter (sessionPasses noFilter)
        (sortSessionsByUpdatedAt
           [exampleSession ''beta'' 1 [lineCostly], exampleSession ''delta'' 1 [lineCheap],
            exampleSession ''main'' 2 [lineCheap]])))
     = [''main:session'', ''beta:session'']"
    by code_simp
  with topSessions_most_recent_first
    [of "[exampleSession ''beta'' 1 [lineCostly], exampleSession ''delta'' 1 [lineCheap],
          exampleSession ''main'' 2 [lineCheap]]" noFilter "Some 2" 1]
  show ?thesis by simp
qed

section \<open>Fleet latency\<close>

lemma ag_latency_foldl:
  "ag_latency (foldl aggregateStep acc ss) = foldl foldLatency (ag_latency acc) (map ss_latency ss)"
  by (induction ss arbitrary: acc) (simp_all add: aggregateStep_def)

lemma latencyRows_Cons:
  "latencyRows (s # ss) =
    (case ss_latency s of None \<Rightarrow> latencyRows ss
     | Some l \<Rightarrow> if ls_count l = 0 then latencyRows ss else l # latencyRows ss)"
  by (simp add: latencyRows_def List.map_filter_simps split: option.splits)

lemma latencyRows_Nil: "latencyRows [] = []"
  by (simp add: latencyRows_def List.map_filter_simps)

lemma foldl_foldLatency:
  "foldl foldLatency acc (map ss_latency ss) =
    \<lparr> la_count = la_count acc + sum_list (map ls_count (latencyRows ss)),
      la_sum = la_sum acc + sum_list (map (\<lambda>l. ls_avgMs l * of_nat (ls_count l)) (latencyRows ss)),
      la_min = (if latencyRows ss = [] then la_min acc
                else Some (case la_min acc of
                             None \<Rightarrow> Min (set (map ls_minMs (latencyRows ss)))
                           | Some m \<Rightarrow> min m (Min (set (map ls_minMs (latencyRows ss)))))),
      la_max = (if latencyRows ss = [] then la_max acc
                else max (la_max acc) (Max (set (map ls_maxMs (latencyRows ss))))),
      la_p95Max = (if latencyRows ss = [] then la_p95Max acc
                   else max (la_p95Max acc) (Max (set (map ls_p95Ms (latencyRows ss))))) \<rparr>"
proof (induction ss arbitrary: acc)
  case Nil
  then show ?case by (simp add: latencyRows_Nil)
next
  case (Cons s ss)
  show ?case
  proof (cases "ss_latency s")
    case None
    then have lr: "latencyRows (s # ss) = latencyRows ss" by (simp add: latencyRows_Cons)
    have st: "foldLatency acc (ss_latency s) = acc" using None by (simp add: foldLatency_def)
    show ?thesis unfolding lr using Cons [of acc] by (simp add: st)
  next
    case (Some l)
    show ?thesis
    proof (cases "ls_count l = 0")
      case True
      then have lr: "latencyRows (s # ss) = latencyRows ss" using Some by (simp add: latencyRows_Cons)
      have st: "foldLatency acc (ss_latency s) = acc" using Some True by (simp add: foldLatency_def)
      show ?thesis unfolding lr using Cons [of acc] by (simp add: st)
    next
      case False
      then have lr: "latencyRows (s # ss) = l # latencyRows ss" using Some by (simp add: latencyRows_Cons)
      define acc' where "acc' = foldLatency acc (ss_latency s)"
      have st: "la_count acc' = la_count acc + ls_count l"
        "la_sum acc' = la_sum acc + ls_avgMs l * of_nat (ls_count l)"
        "la_min acc' = Some (case la_min acc of None \<Rightarrow> ls_minMs l | Some m \<Rightarrow> min m (ls_minMs l))"
        "la_max acc' = max (la_max acc) (ls_maxMs l)"
        "la_p95Max acc' = max (la_p95Max acc) (ls_p95Ms l)"
        using Some False by (simp_all add: acc'_def foldLatency_def)
      have "foldl foldLatency acc (map ss_latency (s # ss)) = foldl foldLatency acc' (map ss_latency ss)"
        by (simp add: acc'_def)
      also note Cons [of acc']
      finally show ?thesis unfolding lr st
        by (cases "la_min acc") (simp_all add: max.assoc min.assoc algebra_simps)
    qed
  qed
qed

lemma latencyRows_count_pos:
  assumes "latencyRows ss \<noteq> []"
  shows "0 < sum_list (map ls_count (latencyRows ss))"
proof -
  from assms obtain l rest where lr: "latencyRows ss = l # rest"
    by (cases "latencyRows ss") auto
  then have "l \<in> set (latencyRows ss)" by simp
  then have "ls_count l \<noteq> 0" by (simp add: latencyRows_def)
  with lr show ?thesis by simp
qed

text \<open>
  What the aggregator computes, over the filtered sessions with a nonzero latency count: the sum
  of the counts, the average \<open>\<Sum> (avg\<^sub>i * count\<^sub>i) / \<Sum> count\<^sub>i\<close>, the minimum of the
  per-session minima, and for the maximum and the p95 the larger of 0 and the maximum of the
  per-session values, since both accumulators start at 0. These are the plain maxima as soon as
  one session has a non-negative maximum (p95). When no filtered session has a nonzero latency
  count, there is no fleet latency.
\<close>

lemma aggregateSessions_latency:
  "latency (aggregateSessions sessions flt) =
    (if latencyRows (filter (sessionPasses flt) sessions) = [] then None
     else Some
       \<lparr> fl_count = sum_list (map ls_count (latencyRows (filter (sessionPasses flt) sessions))),
         fl_avgMs = sum_list (map (\<lambda>l. ls_avgMs l * of_nat (ls_count l))
                                (latencyRows (filter (sessionPasses flt) sessions)))
                    / of_nat (sum_list (map ls_count (latencyRows (filter (sessionPasses flt) sessions)))),
         fl_minMs = Some (Min (set (map ls_minMs (latencyRows (filter (sessionPasses flt) sessions))))),
         fl_maxMs = max 0 (Max (set (map ls_maxMs (latencyRows (filter (sessionPasses flt) sessions))))),
         fl_p95Ms = max 0 (Max (set (map ls_p95Ms (latencyRows (filter (sessionPasses flt) sessions))))) \<rparr>)
   \<and> ((\<exists>l\<in>set (latencyRows (filter (sessionPasses flt) sessions)). 0 \<le> ls_maxMs l) \<longrightarrow>
        map_option fl_maxMs (latency (aggregateSessions sessions flt))
          = Some (Max (set (map ls_maxMs (latencyRows (filter (sessionPasses flt) sessions))))))
   \<and> ((\<exists>l\<in>set (latencyRows (filter (sessionPasses flt) sessions)). 0 \<le> ls_p95Ms l) \<longrightarrow>
        map_option fl_p95Ms (latency (aggregateSessions sessions flt))
          = Some (Max (set (map ls_p95Ms (latencyRows (filter (sessionPasses flt) sessions))))))"
proof -
  define rows where "rows = latencyRows (filter (sessionPasses flt) sessions)"
  have main: "latency (aggregateSessions sessions flt) =
    (if rows = [] then None
     else Some
       \<lparr> fl_count = sum_list (map ls_count rows),
         fl_avgMs = sum_list (map (\<lambda>l. ls_avgMs l * of_nat (ls_count l)) rows)
                    / of_nat (sum_list (map ls_count rows)),
         fl_minMs = Some (Min (set (map ls_minMs rows))),
         fl_maxMs = max 0 (Max (set (map ls_maxMs rows))),
         fl_p95Ms = max 0 (Max (set (map ls_p95Ms rows))) \<rparr>)"
  proof (cases "rows = []")
    case True
    then show ?thesis
      by (simp add: rows_def aggregateSessions_def Let_def ag_latency_foldl foldl_foldLatency
          latencyStatsOf_def emptyAggregate_def emptyLatency_def)
  next
    case False
    from latencyRows_count_pos [OF False [unfolded rows_def]] False show ?thesis
      by (simp add: rows_def aggregateSessions_def Let_def ag_latency_foldl foldl_foldLatency
          latencyStatsOf_def emptyAggregate_def emptyLatency_def)
  qed
  have mx: "(\<exists>l\<in>set rows. 0 \<le> f l) \<Longrightarrow> max 0 (Max (set (map f rows))) = Max (set (map f rows))"
    for f :: "latency_stats \<Rightarrow> rat"
  proof -
    assume "\<exists>l\<in>set rows. 0 \<le> f l"
    then obtain l where l: "l \<in> set rows" "0 \<le> f l" by blast
    then have "f l \<le> Max (f ` set rows)" by (intro Max_ge) auto
    with l(2) have "0 \<le> Max (f ` set rows)" by (rule order_trans)
    then show ?thesis by (simp add: max_def)
  qed
  have ne: "(\<exists>l\<in>set rows. P l) \<Longrightarrow> rows \<noteq> []" for P by auto
  show ?thesis
    unfolding rows_def [symmetric] main
    using mx [of ls_maxMs] mx [of ls_p95Ms] ne by auto
qed

text \<open>
  C9. The fleet maximum should be the maximum of the per-session maxima and the fleet p95 the
  maximum of the per-session p95 values. The code misses that when every session value is
  negative: \<^verbatim>\<open>latency.max\<close> and \<^verbatim>\<open>latency.p95Max\<close> start at 0 where \<^verbatim>\<open>latency.min\<close> starts
  at \<^verbatim>\<open>+Infinity\<close>. A transcript whose only assistant record carries \<^verbatim>\<open>durationMs: -5\<close>, which
  the parser takes unclamped, gives a session with maximum and p95 of -5 and a fleet latency of
  average -5, minimum -5, maximum 0 and p95 0.
\<close>

theorem fleet_latency_floor_at_negative_duration:
  "ss_latency (exampleSession ''main'' 1 [lineNegDuration])
     = Some \<lparr> ls_count = 1, ls_avgMs = - 5, ls_p95Ms = - 5, ls_minMs = - 5, ls_maxMs = - 5 \<rparr>
   \<and> latency (aggregateSessions [exampleSession ''main'' 1 [lineNegDuration]] noFilter)
     = Some \<lparr> fl_count = 1, fl_avgMs = - 5, fl_minMs = Some (- 5), fl_maxMs = 0, fl_p95Ms = 0 \<rparr>"
  by code_simp

section \<open>The parser, line by line\<close>

lemma processLine_decode:
  "processLine env rng s rawLine =
    (case decodeLine env rawLine of None \<Rightarrow> s | Some record \<Rightarrow> processRecord env rng record s)"
  by (simp add: processLine_def decodeLine_def Let_def split: option.splits)

lemma parseLines_snoc:
  "parseLines env rng (pre @ [l]) = processLine env rng (parseLines env rng pre) l"
  by (simp add: parseLines_def)

lemma processRecord_out_of_range:
  "\<not> inRange rng (timestampOf env record) \<Longrightarrow> processRecord env rng record s = s"
  by (simp add: processRecord_def timestampOf_def Let_def)

lemma processRecord_totals:
  "inRange rng (timestampOf env record) \<Longrightarrow>
   st_totals (processRecord env rng record s) =
     (case usageOf record of
        None \<Rightarrow> st_totals s
      | Some u \<Rightarrow> applyEntryCost (applyUsageTotals (st_totals s) u)
                    (usageRawOf record (messageOf record)) (rawCostTotalOf record (messageOf record)))"
  by (simp add: processRecord_def timestampOf_def usageOf_def Let_def)






text \<open>
  C6. A transcript with a line that \<^verbatim>\<open>JSON.parse\<close> rejects yields the same session summary as
  the transcript without that line. The parser is a total function of the lines: the bad line is
  skipped and the parse goes on.
\<close>

theorem parseSessionFile_skips_undecodable:
  assumes "JSON_parse env (trim bad) = None"
  shows "parseSessionFile env meta rng timelineLimit (pre @ [bad] @ post)
           = parseSessionFile env meta rng timelineLimit (pre @ post)"
proof -
  have "processLine env rng s bad = s" for s
    using assms by (simp add: processLine_def Let_def)
  then have "parseLines env rng (pre @ [bad] @ post) = parseLines env rng (pre @ post)"
    by (simp add: parseLines_def)
  then show ?thesis by (simp add: parseSessionFile_def)
qed

theorem parseSessionFile_skips_undecodable_witness:
  "JSON_parse examplePlatform (trim ''not json'') = None
   \<and> exampleSession ''main'' 1 ([lineAu] @ [''not json''] @ [lineBu])
       = exampleSession ''main'' 1 ([lineAu] @ [lineBu])"
proof -
  have bad: "JSON_parse examplePlatform (trim ''not json'') = None"
    by code_simp
  from parseSessionFile_skips_undecodable [OF bad, of _ allTime 240 "[lineAu]" "[lineBu]"] bad
  show ?thesis unfolding exampleSession_def by blast
qed

lemma out_of_window_line_skipped:
  assumes "decodeLine env l = Some rcd" and "\<not> inRange rng (timestampOf env rcd)"
  shows "parseLines env rng (pre @ [l]) = parseLines env rng pre"
  using assms by (simp add: parseLines_snoc processLine_decode processRecord_out_of_range)

text \<open>
  C7 as stated fails for a record outside the collection time window: the loop skips it whole,
  before any accounting. Over a window that starts at 500, an assistant record stamped 100 that
  yields a usage tuple and has no cost leaves \<open>missingCostEntries\<close> at 0.
\<close>

theorem missing_cost_outside_window_counterexample:
  "decodeLine examplePlatform lineOldUsage
     = Some [(''message'', JObj [(''role'', JStr ''assistant''), (''timestamp'', JNum 100),
               (''usage'', JObj [(''input'', JNum 5), (''output'', JNum 3)])])]
   \<and> usageOf [(''message'', JObj [(''role'', JStr ''assistant''), (''timestamp'', JNum 100),
               (''usage'', JObj [(''input'', JNum 5), (''output'', JNum 3)])])]
     = Some \<lparr> u_input = 5, u_output = 3, u_cacheRead = 0, u_cacheWrite = 0, u_total = 8 \<rparr>
   \<and> t_missingCostEntries (ss_totals (recentSession ''main'' 1 [lineCheap])) = 0
   \<and> t_missingCostEntries (ss_totals (recentSession ''main'' 1 [lineCheap, lineOldUsage])) = 0
   \<and> t_totalTokens (ss_totals (recentSession ''main'' 1 [lineCheap, lineOldUsage])) = 10"
  by code_simp

text \<open>
  C7, amended. A record inside the collection time window (no timestamp, or a timestamp within the
  range) that yields a usage tuple and carries no cost information (no nested cost breakdown with
  a non-negative total, no flat cost total in any of the four places read) raises the session's
  \<open>missingCostEntries\<close> by exactly 1 and leaves its \<open>totalCost\<close> as it was. A record whose
  timestamp lies outside the window changes nothing in the session summary.
\<close>

theorem missing_cost_entry:
  "(decodeLine env rawLine = Some record \<and> inRange rng (timestampOf env record)
      \<and> usageOf record = Some u
      \<and> extractCostBreakdown (usageRawOf record (messageOf record)) = None
      \<and> rawCostTotalOf record (messageOf record) = None \<longrightarrow>
    t_missingCostEntries (ss_totals (parseSessionFile env meta rng timelineLimit (pre @ [rawLine])))
      = t_missingCostEntries (ss_totals (parseSessionFile env meta rng timelineLimit pre)) + 1
    \<and> t_totalCost (ss_totals (parseSessionFile env meta rng timelineLimit (pre @ [rawLine])))
      = t_totalCost (ss_totals (parseSessionFile env meta rng timelineLimit pre)))
   \<and> (decodeLine env rawLine = Some record \<and> \<not> inRange rng (timestampOf env record) \<longrightarrow>
    parseSessionFile env meta rng timelineLimit (pre @ [rawLine])
      = parseSessionFile env meta rng timelineLimit pre)"
proof (intro conjI impI)
  assume a: "decodeLine env rawLine = Some record \<and> inRange rng (timestampOf env record)
      \<and> usageOf record = Some u
      \<and> extractCostBreakdown (usageRawOf record (messageOf record)) = None
      \<and> rawCostTotalOf record (messageOf record) = None"
  then have st: "st_totals (parseLines env rng (pre @ [rawLine]))
          = applyCostTotal (applyUsageTotals (st_totals (parseLines env rng pre)) u) None"
    by (simp add: parseLines_snoc processLine_decode processRecord_totals applyEntryCost_def)
  show "t_missingCostEntries (ss_totals (parseSessionFile env meta rng timelineLimit (pre @ [rawLine])))
      = t_missingCostEntries (ss_totals (parseSessionFile env meta rng timelineLimit pre)) + 1"
    using st
    by (simp add: parseSessionFile_def summarize_def Let_def applyCostTotal_def applyUsageTotals_def)
  show "t_totalCost (ss_totals (parseSessionFile env meta rng timelineLimit (pre @ [rawLine])))
      = t_totalCost (ss_totals (parseSessionFile env meta rng timelineLimit pre))"
    using st
    by (simp add: parseSessionFile_def summarize_def Let_def applyCostTotal_def applyUsageTotals_def)
next
  assume "decodeLine env rawLine = Some record \<and> \<not> inRange rng (timestampOf env record)"
  then have "parseLines env rng (pre @ [rawLine]) = parseLines env rng pre"
    by (intro out_of_window_line_skipped [of env rawLine "record"]) auto
  then show "parseSessionFile env meta rng timelineLimit (pre @ [rawLine])
      = parseSessionFile env meta rng timelineLimit pre"
    by (simp add: parseSessionFile_def)
qed

theorem missing_cost_entry_witness:
  "decodeLine examplePlatform lineAu
     = Some [(''message'', JObj [(''role'', JStr ''assistant''), (''model'', JStr ''A''),
               (''usage'', JObj [(''input'', JNum 5), (''output'', JNum 3)])])]
   \<and> t_missingCostEntries (ss_totals (exampleSession ''main'' 1 ([lineCheap] @ [lineAu])))
       = t_missingCostEntries (ss_totals (exampleSession ''main'' 1 [lineCheap])) + 1
   \<and> t_totalCost (ss_totals (exampleSession ''main'' 1 ([lineCheap] @ [lineAu])))
       = t_totalCost (ss_totals (exampleSession ''main'' 1 [lineCheap]))
   \<and> recentSession ''main'' 1 ([lineCheap] @ [lineOldUsage]) = recentSession ''main'' 1 [lineCheap]"
proof -
  define rcd where "rcd = [(''message'', JObj [(''role'', JStr ''assistant''), (''model'', JStr ''A''),
               (''usage'', JObj [(''input'', JNum 5), (''output'', JNum 3)])])]"
  define old where "old = [(''message'', JObj [(''role'', JStr ''assistant''), (''timestamp'', JNum 100),
               (''usage'', JObj [(''input'', JNum 5), (''output'', JNum 3)])])]"
  have d: "decodeLine examplePlatform lineAu = Some rcd"
    unfolding rcd_def by code_simp
  have r: "inRange allTime (timestampOf examplePlatform rcd)"
    unfolding rcd_def by code_simp
  have u: "usageOf rcd = Some \<lparr> u_input = 5, u_output = 3, u_cacheRead = 0, u_cacheWrite = 0, u_total = 8 \<rparr>"
    unfolding rcd_def by code_simp
  have b: "extractCostBreakdown (usageRawOf rcd (messageOf rcd)) = None"
    unfolding rcd_def by code_simp
  have c: "rawCostTotalOf rcd (messageOf rcd) = None"
    unfolding rcd_def by code_simp
  have od: "decodeLine examplePlatform lineOldUsage = Some old"
    unfolding old_def by code_simp
  have orr: "\<not> inRange recentWindow (timestampOf examplePlatform old)"
    unfolding old_def by code_simp
  from missing_cost_entry [of examplePlatform lineAu rcd allTime _ _ 240 "[lineCheap]"] d r u b c
  have c1: "t_missingCostEntries (ss_totals (exampleSession ''main'' 1 ([lineCheap] @ [lineAu])))
       = t_missingCostEntries (ss_totals (exampleSession ''main'' 1 [lineCheap])) + 1
   \<and> t_totalCost (ss_totals (exampleSession ''main'' 1 ([lineCheap] @ [lineAu])))
       = t_totalCost (ss_totals (exampleSession ''main'' 1 [lineCheap]))"
    unfolding exampleSession_def by blast
  from missing_cost_entry [of examplePlatform lineOldUsage old recentWindow _ _ 240 "[lineCheap]"] od orr
  have c2: "recentSession ''main'' 1 ([lineCheap] @ [lineOldUsage]) = recentSession ''main'' 1 [lineCheap]"
    unfolding recentSession_def by blast
  from d c1 c2 show ?thesis unfolding rcd_def by blast
qed









section \<open>Token spikes\<close>

lemma foldl_add_sum_list: "foldl (\<lambda>sum n. sum + n) a xs = a + sum_list (xs :: rat list)"
  by (induction xs arbitrary: a) (simp_all add: add.assoc)

lemma calcMean_eq: "xs \<noteq> [] \<Longrightarrow> calcMean xs = sum_list xs / of_nat (length xs)"
  by (simp add: calcMean_def foldl_add_sum_list)

lemma insertBy_localeCompare:
  "insertBy (\<lambda>a b. localeCompare (f a) (f b)) x ys = insort_key f x ys"
  by (induction ys) (auto simp: localeCompare_def)

lemma arraySort_localeCompare:
  "arraySort (\<lambda>a b. localeCompare (f a) (f b)) xs = sort_key f xs"
  by (induction xs) (simp_all add: arraySort_def insertBy_localeCompare)

lemma sum_list_pos_filter:
  assumes "xs \<noteq> []" and "\<forall>x\<in>set xs. 0 < (x :: rat)"
  shows "0 < sum_list xs"
  using assms by (induction xs) (auto intro: add_pos_nonneg sum_list_nonneg less_imp_le)

text \<open>
  C4. On a daily series of non-negative token counts, \<open>buildAnomalies\<close> reports a token spike
  exactly when the series has at least 4 days, at least 3 of the days before the most recent one
  have nonzero tokens, and the most recent day has more than 5000 tokens and at least 2.3 times
  the mean of those nonzero days; the spike carries that day, its tokens, that mean as baseline
  and the ratio. Days whose tokens are 1000, 1100, 900, 1050, 6000 in date order give a spike for
  the last day with baseline 1012.5 and ratio 160/27, which is 5.93 to two decimals; days whose
  tokens are 1000, 1000, 1000, 1000, 1800 give none.
\<close>

theorem tokenSpikes_exactly_when:
  "((\<forall>d\<in>set dailySeries. 0 \<le> fd_tokens d) \<longrightarrow>
      tokenSpikesOf dailySeries =
        (if 4 \<le> length dailySeries
            \<and> 3 \<le> length (filter (\<lambda>n. n \<noteq> 0) (map fd_tokens (butlast (sort_key fd_date dailySeries))))
            \<and> 5000 < fd_tokens (last (sort_key fd_date dailySeries))
            \<and> 23 / 10 \<le> fd_tokens (last (sort_key fd_date dailySeries))
                 / calcMeanSpec (filter (\<lambda>n. n \<noteq> 0) (map fd_tokens (butlast (sort_key fd_date dailySeries))))
         then [\<lparr> sp_date = fd_date (last (sort_key fd_date dailySeries)),
                  sp_tokens = fd_tokens (last (sort_key fd_date dailySeries)),
                  sp_baselineTokens =
                    calcMeanSpec (filter (\<lambda>n. n \<noteq> 0) (map fd_tokens (butlast (sort_key fd_date dailySeries)))),
                  sp_ratio = fd_tokens (last (sort_key fd_date dailySeries))
                    / calcMeanSpec (filter (\<lambda>n. n \<noteq> 0) (map fd_tokens (butlast (sort_key fd_date dailySeries)))) \<rparr>]
         else []))
   \<and> (map fd_tokens (sort_key fd_date dailySeries) = [1000, 1100, 900, 1050, 6000] \<longrightarrow>
        tokenSpikesOf dailySeries =
          [\<lparr> sp_date = fd_date (last (sort_key fd_date dailySeries)), sp_tokens = 6000,
              sp_baselineTokens = 2025 / 2, sp_ratio = 160 / 27 \<rparr>]
        \<and> \<bar>160 / 27 - 593 / 100\<bar> < (1 / 100 :: rat))
   \<and> (map fd_tokens (sort_key fd_date dailySeries) = [1000, 1000, 1000, 1000, 1800] \<longrightarrow>
        tokenSpikesOf dailySeries = [])"
proof -
  define ordered where "ordered = sort_key fd_date dailySeries"
  define lastDay where "lastDay = last ordered"
  define prev where "prev = map fd_tokens (butlast ordered)"
  have len: "length ordered = length dailySeries" by (simp add: ordered_def)
  have code: "tokenSpikesOf dailySeries =
     (if 4 \<le> length dailySeries
      then (if 3 \<le> length (filter (\<lambda>n. 0 < n) prev)
            then (if 5000 < fd_tokens lastDay
                     \<and> 23 / 10 \<le> (if 0 < calcMean (filter (\<lambda>n. 0 < n) prev)
                                    then fd_tokens lastDay / calcMean (filter (\<lambda>n. 0 < n) prev) else 0)
                  then [\<lparr> sp_date = fd_date lastDay, sp_tokens = fd_tokens lastDay,
                          sp_baselineTokens = calcMean (filter (\<lambda>n. 0 < n) prev),
                          sp_ratio = (if 0 < calcMean (filter (\<lambda>n. 0 < n) prev)
                                      then fd_tokens lastDay / calcMean (filter (\<lambda>n. 0 < n) prev) else 0) \<rparr>]
                  else [])
            else [])
      else [])"
    unfolding tokenSpikesOf_def Let_def arraySort_localeCompare
      ordered_def [symmetric] prev_def [symmetric] lastDay_def [symmetric]
    by (rule refl)
  have general: "tokenSpikesOf dailySeries =
        (if 4 \<le> length dailySeries
            \<and> 3 \<le> length (filter (\<lambda>n. n \<noteq> 0) prev)
            \<and> 5000 < fd_tokens lastDay
            \<and> 23 / 10 \<le> fd_tokens lastDay / calcMeanSpec (filter (\<lambda>n. n \<noteq> 0) prev)
         then [\<lparr> sp_date = fd_date lastDay, sp_tokens = fd_tokens lastDay,
                  sp_baselineTokens = calcMeanSpec (filter (\<lambda>n. n \<noteq> 0) prev),
                  sp_ratio = fd_tokens lastDay / calcMeanSpec (filter (\<lambda>n. n \<noteq> 0) prev) \<rparr>]
         else [])"
    if nonneg: "\<forall>d\<in>set dailySeries. 0 \<le> fd_tokens d"
  proof -
    have pn: "\<forall>n\<in>set prev. 0 \<le> n"
      using nonneg unfolding prev_def ordered_def
      by (auto dest!: in_set_butlastD)
    then have flt: "filter (\<lambda>n. 0 < n) prev = filter (\<lambda>n. n \<noteq> 0) prev"
      by (intro filter_cong) auto
    define nz where "nz = filter (\<lambda>n. n \<noteq> 0) prev"
    show ?thesis
    proof (cases "3 \<le> length nz")
      case False
      then show ?thesis unfolding code flt nz_def [symmetric] by simp
    next
      case True
      then have ne: "nz \<noteq> []" by auto
      have "\<forall>x\<in>set nz. 0 < x"
        using pn unfolding nz_def by auto
      with ne have "0 < sum_list nz" by (rule sum_list_pos_filter)
      then have pos: "0 < calcMean nz"
        using ne by (simp add: calcMean_eq)
      have cm: "calcMeanSpec nz = calcMean nz"
        using ne by (simp add: calcMean_eq calcMeanSpec_def)
      show ?thesis
        unfolding code flt nz_def [symmetric] cm using pos True by simp
    qed
  qed
  have ex1: "tokenSpikesOf dailySeries =
          [\<lparr> sp_date = fd_date lastDay, sp_tokens = 6000,
              sp_baselineTokens = 2025 / 2, sp_ratio = 160 / 27 \<rparr>]"
    if m: "map fd_tokens ordered = [1000, 1100, 900, 1050, 6000]"
  proof -
    have "length (map fd_tokens ordered) = 5" unfolding m by simp
    then have l5: "length dailySeries = 5" using len by simp
    from m have ne: "ordered \<noteq> []" by auto
    have "map fd_tokens (butlast ordered) = butlast (map fd_tokens ordered)" by (simp add: map_butlast)
    then have p: "prev = [1000, 1100, 900, 1050]" unfolding m prev_def by simp
    have "fd_tokens (last ordered) = last (map fd_tokens ordered)" using ne by (simp add: last_map)
    then have lt: "fd_tokens lastDay = 6000" unfolding m lastDay_def by simp
    show ?thesis
      unfolding code p lt l5 by (simp add: calcMean_def)
  qed
  have ex2: "tokenSpikesOf dailySeries = []"
    if m: "map fd_tokens ordered = [1000, 1000, 1000, 1000, 1800]"
  proof -
    from m have ne: "ordered \<noteq> []" by auto
    have "fd_tokens (last ordered) = last (map fd_tokens ordered)" using ne by (simp add: last_map)
    then have lt: "fd_tokens lastDay = 1800" unfolding m lastDay_def by simp
    show ?thesis
      unfolding code lt by simp
  qed
  have approx: "\<bar>160 / 27 - 593 / 100\<bar> < (1 / 100 :: rat)" by simp
  show ?thesis
    unfolding ordered_def [symmetric] lastDay_def [symmetric] prev_def [symmetric]
    apply (intro conjI impI)
       apply (erule general)
      apply (erule ex1)
     apply (rule approx)
    apply (erule ex2)
    done
qed


theorem tokenSpikes_exactly_when_witness:
  "map fd_tokens (sort_key fd_date spikeSeries) = [1000, 1100, 900, 1050, 6000]
   \<and> tokenSpikesOf spikeSeries
       = [\<lparr> sp_date = ''2026-01-05'', sp_tokens = 6000, sp_baselineTokens = 2025 / 2,
            sp_ratio = 160 / 27 \<rparr>]
   \<and> map fd_tokens (sort_key fd_date flatSeries) = [1000, 1000, 1000, 1000, 1800]
   \<and> tokenSpikesOf flatSeries = []
   \<and> tokenSpikesOf idleDaySeries
       = [\<lparr> sp_date = ''2026-01-05'', sp_tokens = 6000, sp_baselineTokens = 2025 / 2,
            sp_ratio = 160 / 27 \<rparr>]"
proof -
  have s: "map fd_tokens (sort_key fd_date spikeSeries) = [1000, 1100, 900, 1050, 6000]"
    by code_simp
  have sd: "fd_date (last (sort_key fd_date spikeSeries)) = ''2026-01-05''"
    by code_simp
  have f: "map fd_tokens (sort_key fd_date flatSeries) = [1000, 1000, 1000, 1000, 1800]"
    by code_simp
  have nn: "\<forall>d\<in>set idleDaySeries. 0 \<le> fd_tokens d"
    by (simp add: idleDaySeries_def fleetDay_def)
  have c1: "tokenSpikesOf spikeSeries
       = [\<lparr> sp_date = ''2026-01-05'', sp_tokens = 6000, sp_baselineTokens = 2025 / 2,
            sp_ratio = 160 / 27 \<rparr>]"
    using tokenSpikes_exactly_when [of spikeSeries] s unfolding sd [symmetric] by blast
  have c2: "tokenSpikesOf flatSeries = []"
    using tokenSpikes_exactly_when [of flatSeries] f by blast
  have "tokenSpikesOf idleDaySeries =
        (if 4 \<le> length idleDaySeries
            \<and> 3 \<le> length (filter (\<lambda>n. n \<noteq> 0) (map fd_tokens (butlast (sort_key fd_date idleDaySeries))))
            \<and> 5000 < fd_tokens (last (sort_key fd_date idleDaySeries))
            \<and> 23 / 10 \<le> fd_tokens (last (sort_key fd_date idleDaySeries))
                 / calcMeanSpec (filter (\<lambda>n. n \<noteq> 0) (map fd_tokens (butlast (sort_key fd_date idleDaySeries))))
         then [\<lparr> sp_date = fd_date (last (sort_key fd_date idleDaySeries)),
                  sp_tokens = fd_tokens (last (sort_key fd_date idleDaySeries)),
                  sp_baselineTokens =
                    calcMeanSpec (filter (\<lambda>n. n \<noteq> 0) (map fd_tokens (butlast (sort_key fd_date idleDaySeries)))),
                  sp_ratio = fd_tokens (last (sort_key fd_date idleDaySeries))
                    / calcMeanSpec (filter (\<lambda>n. n \<noteq> 0) (map fd_tokens (butlast (sort_key fd_date idleDaySeries)))) \<rparr>]
         else [])"
    using tokenSpikes_exactly_when [of idleDaySeries] nn by blast
  also have "\<dots> = [\<lparr> sp_date = ''2026-01-05'', sp_tokens = 6000, sp_baselineTokens = 2025 / 2,
            sp_ratio = 160 / 27 \<rparr>]"
    by code_simp
  finally have c3: "tokenSpikesOf idleDaySeries
       = [\<lparr> sp_date = ''2026-01-05'', sp_tokens = 6000, sp_baselineTokens = 2025 / 2,
            sp_ratio = 160 / 27 \<rparr>]" .
  from s c1 f c2 c3 show ?thesis by blast
qed


section \<open>Model switches and unique models\<close>

lemma processRecord_modelSwitches:
  "st_modelSwitches (processRecord env rng record s) =
     (if inRange rng (timestampOf env record)
         \<and> isModelSwitch (roleOf (messageOf record)) (st_previousAssistantModelKey s) (keyOfRecord record)
      then st_modelSwitches s + 1 else st_modelSwitches s)"
  by (simp add: processRecord_def timestampOf_def keyOfRecord_def Let_def)

lemma processRecord_previousKey:
  "st_previousAssistantModelKey (processRecord env rng record s) =
     (if inRange rng (timestampOf env record) \<and> roleOf (messageOf record) = Some Assistant
         \<and> keyOfRecord record \<noteq> ''unknown::unknown''
      then Some (keyOfRecord record) else st_previousAssistantModelKey s)"
  by (simp add: processRecord_def timestampOf_def keyOfRecord_def Let_def)

lemma processRecord_modelMap:
  "st_modelMap (processRecord env rng record s) =
     (if inRange rng (timestampOf env record)
      then (case usageOf record of
              None \<Rightarrow> st_modelMap s
            | Some u \<Rightarrow> foldModelMap (providerOf record (messageOf record)) (modelOf record (messageOf record))
                          u (usageRawOf record (messageOf record)) (rawCostTotalOf record (messageOf record))
                          (st_modelMap s))
      else st_modelMap s)"
  by (simp add: processRecord_def timestampOf_def usageOf_def Let_def)

lemma modelKeyOf_nonempty: "modelKeyOf p m \<noteq> []"
  by (simp add: modelKeyOf_def)

lemma lastKnownKey_snoc:
  "lastKnownKey (ks @ [k]) = (if k \<noteq> ''unknown::unknown'' then Some k else lastKnownKey ks)"
  by (simp add: lastKnownKey_def)

lemma lastKnownKey_nonempty: "lastKnownKey ks = Some p \<Longrightarrow> p \<noteq> ''unknown::unknown''"
proof -
  assume a: "lastKnownKey ks = Some p"
  then have ne: "filter (\<lambda>k. k \<noteq> ''unknown::unknown'') ks \<noteq> []"
    and p: "p = last (filter (\<lambda>k. k \<noteq> ''unknown::unknown'') ks)"
    by (auto simp: lastKnownKey_def split: if_splits)
  from ne have "last (filter (\<lambda>k. k \<noteq> ''unknown::unknown'') ks)
      \<in> set (filter (\<lambda>k. k \<noteq> ''unknown::unknown'') ks)"
    by (rule last_in_set)
  with p show ?thesis by simp
qed

lemma switchPositions_snoc:
  "length (switchPositions (ks @ [k])) =
     length (switchPositions ks)
     + (if k \<noteq> ''unknown::unknown'' \<and> (case lastKnownKey ks of None \<Rightarrow> False | Some p \<Rightarrow> p \<noteq> k)
        then 1 else 0)"
proof -
  define P where "P xs i \<longleftrightarrow> xs ! i \<noteq> ''unknown::unknown''
      \<and> (case lastKnownKey (take i xs) of None \<Rightarrow> False | Some p \<Rightarrow> p \<noteq> xs ! i)"
    for xs :: "string list" and i
  have sp: "switchPositions xs = filter (P xs) [0..<length xs]" for xs
    unfolding switchPositions_def P_def by simp
  have "P (ks @ [k]) i = P ks i" if "i < length ks" for i
    using that unfolding P_def by (simp add: nth_append cong: option.case_cong)
  then have 1: "filter (P (ks @ [k])) [0..<length ks] = filter (P ks) [0..<length ks]"
    by (intro filter_cong) auto
  have 2: "P (ks @ [k]) (length ks)
      = (k \<noteq> ''unknown::unknown'' \<and> (case lastKnownKey ks of None \<Rightarrow> False | Some p \<Rightarrow> p \<noteq> k))"
    unfolding P_def by (simp cong: option.case_cong)
  show ?thesis
    unfolding sp by (simp add: 1 2)
qed

lemma assistantKeys_snoc:
  "assistantKeys env rng (ls @ [l]) =
     assistantKeys env rng ls @ (case assistantKeyOfLine env rng l of None \<Rightarrow> [] | Some k \<Rightarrow> [k])"
  by (simp add: assistantKeys_def List.map_filter_def split: option.splits)

lemma usageKeys_snoc:
  "usageKeys env rng (ls @ [l]) =
     usageKeys env rng ls @ (case usageKeyOfLine env rng l of None \<Rightarrow> [] | Some k \<Rightarrow> [k])"
  by (simp add: usageKeys_def List.map_filter_def split: option.splits)

lemma lastKnownKey_in_set: "lastKnownKey ks = Some p \<Longrightarrow> p \<in> set ks"
proof -
  assume a: "lastKnownKey ks = Some p"
  then have ne: "filter (\<lambda>k. k \<noteq> ''unknown::unknown'') ks \<noteq> []"
    and p: "p = last (filter (\<lambda>k. k \<noteq> ''unknown::unknown'') ks)"
    by (auto simp: lastKnownKey_def split: if_splits)
  from ne have "last (filter (\<lambda>k. k \<noteq> ''unknown::unknown'') ks)
      \<in> set (filter (\<lambda>k. k \<noteq> ''unknown::unknown'') ks)"
    by (rule last_in_set)
  with p show ?thesis by simp
qed

lemma assistantKeys_nonempty: "k \<in> set (assistantKeys env rng ls) \<Longrightarrow> k \<noteq> []"
  by (auto simp: assistantKeys_def List.map_filter_def assistantKeyOfLine_def keyOfRecord_def
      modelKeyOf_nonempty split: option.splits if_splits)

lemma switch_invariant:
  "st_previousAssistantModelKey (parseLines env rng ls) = lastKnownKey (assistantKeys env rng ls)
   \<and> st_modelSwitches (parseLines env rng ls) = length (switchPositions (assistantKeys env rng ls))"
proof (induction ls rule: rev_induct)
  case Nil
  then show ?case
    by (simp add: parseLines_def initialState_def assistantKeys_def List.map_filter_simps
        lastKnownKey_def switchPositions_def)
next
  case (snoc l ls)
  show ?case
  proof (cases "assistantKeyOfLine env rng l")
    case None
    then have k: "assistantKeys env rng (ls @ [l]) = assistantKeys env rng ls"
      by (simp add: assistantKeys_snoc)
    from None have "st_previousAssistantModelKey (parseLines env rng (ls @ [l]))
          = st_previousAssistantModelKey (parseLines env rng ls)
        \<and> st_modelSwitches (parseLines env rng (ls @ [l])) = st_modelSwitches (parseLines env rng ls)"
      by (auto simp: parseLines_snoc processLine_decode assistantKeyOfLine_def
          processRecord_modelSwitches processRecord_previousKey isModelSwitch_def
          split: option.splits if_splits)
    with snoc k show ?thesis by simp
  next
    case (Some k)
    then obtain rcd where d: "decodeLine env l = Some rcd"
      and r: "inRange rng (timestampOf env rcd)" "roleOf (messageOf rcd) = Some Assistant"
      and kk: "keyOfRecord rcd = k"
      by (auto simp: assistantKeyOfLine_def split: option.splits if_splits)
    have ks: "assistantKeys env rng (ls @ [l]) = assistantKeys env rng ls @ [k]"
      using Some by (simp add: assistantKeys_snoc)
    have st: "parseLines env rng (ls @ [l]) = processRecord env rng rcd (parseLines env rng ls)"
      using d by (simp add: parseLines_snoc processLine_decode)
    have prev: "st_previousAssistantModelKey (parseLines env rng (ls @ [l]))
          = lastKnownKey (assistantKeys env rng ls @ [k])"
      unfolding st using r kk snoc by (simp add: processRecord_previousKey lastKnownKey_snoc)
    have truthy: "(case lastKnownKey (assistantKeys env rng ls) of None \<Rightarrow> False | Some p \<Rightarrow> p \<noteq> [])
        = (lastKnownKey (assistantKeys env rng ls) \<noteq> None)"
      using lastKnownKey_in_set [of "assistantKeys env rng ls"] assistantKeys_nonempty [of _ env rng ls]
      by (cases "lastKnownKey (assistantKeys env rng ls)") auto
    have sw: "st_modelSwitches (parseLines env rng (ls @ [l]))
          = length (switchPositions (assistantKeys env rng ls @ [k]))"
      unfolding st using r kk snoc
      by (auto simp: processRecord_modelSwitches switchPositions_snoc isModelSwitch_def truthy
          split: option.splits)
    from prev sw ks show ?thesis by simp
  qed
qed


lemma map_fst_mapSet:
  "map fst (mapSet k v m) = (if k \<in> set (map fst m) then map fst m else map fst m @ [k])"
  by (induction m) (force simp: image_iff)+

lemma fst_set_mapSet: "fst ` set (mapSet k v m) = insert k (fst ` set m)"
proof -
  have "set (map fst (mapSet k v m)) = insert k (set (map fst m))"
    unfolding map_fst_mapSet by auto
  then show ?thesis by simp
qed

lemma set_mapSet_cases: "(k', v') \<in> set (mapSet k v m) \<Longrightarrow> (k', v') = (k, v) \<or> (k', v') \<in> set m"
  by (induction m) (auto split: if_splits)

lemma mapGetOr_cases: "mapGetOr m k d = d \<or> (k, mapGetOr m k d) \<in> set m"
  by (auto simp: mapGetOr_def split: option.splits dest: map_of_SomeD)

lemma foldModelMap_keys:
  "fst ` set (foldModelMap provider model u usageRaw rawCost m)
     = insert (modelKeyOf provider model) (fst ` set m)"
  by (simp add: foldModelMap_def Let_def fst_set_mapSet)

lemma foldModelMap_bucketKey:
  assumes "\<forall>(k, b)\<in>set m. modelKeyOf (mb_provider b) (mb_model b) = k"
  shows "\<forall>(k, b)\<in>set (foldModelMap provider model u usageRaw rawCost m).
           modelKeyOf (mb_provider b) (mb_model b) = k"
proof -
  define key where "key = modelKeyOf provider model"
  define dflt where "dflt = \<lparr> mb_provider = provider, mb_model = model, mb_count = 0, mb_totals = createTotals \<rparr>"
  define old where "old = mapGetOr m key dflt"
  have "modelKeyOf (mb_provider old) (mb_model old) = key"
    using mapGetOr_cases [of m key dflt] assms unfolding old_def
    by (auto simp: dflt_def key_def)
  then show ?thesis
    using assms
    unfolding foldModelMap_def Let_def key_def [symmetric] dflt_def [symmetric] old_def [symmetric]
    by (auto dest!: set_mapSet_cases)
qed

lemma modelMap_invariant:
  "fst ` set (st_modelMap (parseLines env rng ls)) = set (usageKeys env rng ls)
   \<and> (\<forall>(k, b)\<in>set (st_modelMap (parseLines env rng ls)). modelKeyOf (mb_provider b) (mb_model b) = k)"
proof (induction ls rule: rev_induct)
  case Nil
  then show ?case
    by (simp add: parseLines_def initialState_def usageKeys_def List.map_filter_simps)
next
  case (snoc l ls)
  show ?case
  proof (cases "usageKeyOfLine env rng l")
    case None
    then have k: "usageKeys env rng (ls @ [l]) = usageKeys env rng ls"
      by (simp add: usageKeys_snoc)
    from None have "st_modelMap (parseLines env rng (ls @ [l])) = st_modelMap (parseLines env rng ls)"
      by (auto simp: parseLines_snoc processLine_decode usageKeyOfLine_def processRecord_modelMap
          split: option.splits if_splits)
    with snoc k show ?thesis by simp
  next
    case (Some k)
    then obtain rcd u where d: "decodeLine env l = Some rcd"
      and r: "inRange rng (timestampOf env rcd)" and us: "usageOf rcd = Some u"
      and kk: "keyOfRecord rcd = k"
      by (auto simp: usageKeyOfLine_def split: option.splits if_splits)
    have ks: "usageKeys env rng (ls @ [l]) = usageKeys env rng ls @ [k]"
      using Some by (simp add: usageKeys_snoc)
    have st: "st_modelMap (parseLines env rng (ls @ [l]))
        = foldModelMap (providerOf rcd (messageOf rcd)) (modelOf rcd (messageOf rcd)) u
            (usageRawOf rcd (messageOf rcd)) (rawCostTotalOf rcd (messageOf rcd))
            (st_modelMap (parseLines env rng ls))"
      using d r us by (simp add: parseLines_snoc processLine_decode processRecord_modelMap)
    from snoc have i1: "fst ` set (st_modelMap (parseLines env rng ls)) = set (usageKeys env rng ls)"
      and i2: "\<forall>(k, b)\<in>set (st_modelMap (parseLines env rng ls)). modelKeyOf (mb_provider b) (mb_model b) = k"
      by blast+
    have "fst ` set (st_modelMap (parseLines env rng (ls @ [l]))) = set (usageKeys env rng (ls @ [l]))"
      unfolding st ks foldModelMap_keys i1 using kk by (simp add: keyOfRecord_def)
    moreover have "\<forall>(k, b)\<in>set (st_modelMap (parseLines env rng (ls @ [l]))).
        modelKeyOf (mb_provider b) (mb_model b) = k"
      unfolding st by (rule foldModelMap_bucketKey [OF i2])
    ultimately show ?thesis by blast
  qed
qed

lemma uniqueModels_eq:
  "ss_uniqueModels (parseSessionFile env meta rng timelineLimit ls)
     = length (remdups (usageKeys env rng ls))"
proof -
  define m where "m = st_modelMap (parseLines env rng ls)"
  have i1: "fst ` set m = set (usageKeys env rng ls)"
    and i2: "\<forall>(k, b)\<in>set m. modelKeyOf (mb_provider b) (mb_model b) = k"
    using modelMap_invariant [of env rng ls] unfolding m_def by blast+
  have "(\<lambda>b. modelKeyOf (mb_provider b) (mb_model b)) ` snd ` set m = fst ` set m"
    using i2 by (force simp: image_iff)
  then have "set (map (\<lambda>b. modelKeyOf (mb_provider b) (mb_model b))
                 (arraySort (\<lambda>a b. sortByCostThenTokens (mb_totals a) (mb_totals b)) (map snd m)))
             = set (usageKeys env rng ls)"
    using i1 by (simp add: set_arraySort)
  then have "card (set (map (\<lambda>b. modelKeyOf (mb_provider b) (mb_model b))
                 (arraySort (\<lambda>a b. sortByCostThenTokens (mb_totals a) (mb_totals b)) (map snd m))))
             = card (set (usageKeys env rng ls))"
    by simp
  then show ?thesis
    unfolding parseSessionFile_def summarize_def Let_def m_def [symmetric]
    by (simp add: length_remdups_card_conv)
qed

lemma five_keys_two_switches:
  assumes "a \<noteq> b" "a \<noteq> ''unknown::unknown''" "b \<noteq> ''unknown::unknown''"
  shows "length (switchPositions [a, a, b, b, a]) = 2"
proof -
  have l1: "lastKnownKey [a] = Some a" using assms by (simp add: lastKnownKey_def)
  have l2: "lastKnownKey [a, a] = Some a" using assms by (simp add: lastKnownKey_def)
  have l3: "lastKnownKey [a, a, b] = Some b" using assms by (simp add: lastKnownKey_def)
  have l4: "lastKnownKey [a, a, b, b] = Some b" using assms by (simp add: lastKnownKey_def)
  have s0: "length (switchPositions []) = 0" by (simp add: switchPositions_def)
  have s1: "length (switchPositions [a]) = 0"
    using switchPositions_snoc [of "[]" a] s0 by (simp add: lastKnownKey_def)
  have s2: "length (switchPositions [a, a]) = 0"
    using switchPositions_snoc [of "[a]" a] s1 l1 by simp
  have s3: "length (switchPositions [a, a, b]) = 1"
    using switchPositions_snoc [of "[a, a]" b] s2 l2 assms by simp
  have s4: "length (switchPositions [a, a, b, b]) = 1"
    using switchPositions_snoc [of "[a, a, b]" b] s3 l3 assms by simp
  show ?thesis
    using switchPositions_snoc [of "[a, a, b, b]" a] s4 l4 assms by simp
qed

text \<open>
  C5, amended. Within one session, over the records inside the collection time window (a record
  whose timestamp lies outside it is skipped whole; a record without a timestamp is always
  inside), the model-switch counter equals the number of positions at which an assistant turn
  carries a non-unknown model identity different from the most recent preceding assistant turn's
  non-unknown model identity; for assistant turns modeled A, A, B, B, A it is 2. The unique-model
  count is the number of distinct model identities among the records, inside the window, that
  yield a usage tuple, whatever their role: it is 2 for those five turns when they are the
  records that carry usage.
\<close>

theorem model_switches_and_unique_models:
  "ss_modelSwitches (parseSessionFile env meta rng timelineLimit lines)
     = length (switchPositions (assistantKeys env rng lines))
   \<and> ss_uniqueModels (parseSessionFile env meta rng timelineLimit lines)
     = length (remdups (usageKeys env rng lines))
   \<and> (a \<noteq> b \<and> a \<noteq> ''unknown::unknown'' \<and> b \<noteq> ''unknown::unknown''
        \<and> assistantKeys env rng lines = [a, a, b, b, a] \<longrightarrow>
      ss_modelSwitches (parseSessionFile env meta rng timelineLimit lines) = 2)
   \<and> (a \<noteq> b \<and> assistantKeys env rng lines = [a, a, b, b, a]
        \<and> usageKeys env rng lines = assistantKeys env rng lines \<longrightarrow>
      ss_uniqueModels (parseSessionFile env meta rng timelineLimit lines) = 2)"
proof -
  have sw: "ss_modelSwitches (parseSessionFile env meta rng timelineLimit lines)
     = length (switchPositions (assistantKeys env rng lines))"
    using switch_invariant [of env rng lines]
    by (simp add: parseSessionFile_def summarize_def Let_def)
  have un: "ss_uniqueModels (parseSessionFile env meta rng timelineLimit lines)
     = length (remdups (usageKeys env rng lines))"
    by (rule uniqueModels_eq)
  show ?thesis
    unfolding sw un
    by (auto simp: five_keys_two_switches)
qed

text \<open>
  C5 as stated fails twice. The unique-model count is taken from the per-model usage table, which
  has an entry only for a record that yields a usage tuple: five assistant turns modeled
  A, A, B, B, A that carry no usage give 2 switches and a unique-model count of 0. And a turn
  outside the collection time window counts for nothing: turns A, B make 1 switch over all time
  and 0 over a window that starts after A.
\<close>

theorem unique_models_need_usage_counterexample:
  "assistantKeys examplePlatform allTime [lineA, lineA, lineB, lineB, lineA]
     = [''unknown::A'', ''unknown::A'', ''unknown::B'', ''unknown::B'', ''unknown::A'']
   \<and> ss_modelSwitches (exampleSession ''main'' 1 [lineA, lineA, lineB, lineB, lineA]) = 2
   \<and> ss_uniqueModels (exampleSession ''main'' 1 [lineA, lineA, lineB, lineB, lineA]) = 0
   \<and> assistantKeys examplePlatform allTime [lineOldA, lineB] = [''unknown::A'', ''unknown::B'']
   \<and> ss_modelSwitches (exampleSession ''main'' 1 [lineOldA, lineB]) = 1
   \<and> ss_modelSwitches (recentSession ''main'' 1 [lineOldA, lineB]) = 0"
  by code_simp

theorem model_switches_and_unique_models_witness:
  "assistantKeys examplePlatform allTime [lineAu, lineAu, lineBu, lineBu, lineAu]
     = [''unknown::A'', ''unknown::A'', ''unknown::B'', ''unknown::B'', ''unknown::A'']
   \<and> usageKeys examplePlatform allTime [lineAu, lineAu, lineBu, lineBu, lineAu]
     = assistantKeys examplePlatform allTime [lineAu, lineAu, lineBu, lineBu, lineAu]
   \<and> ss_modelSwitches (exampleSession ''main'' 1 [lineAu, lineAu, lineBu, lineBu, lineAu]) = 2
   \<and> ss_uniqueModels (exampleSession ''main'' 1 [lineAu, lineAu, lineBu, lineBu, lineAu]) = 2"
proof -
  have k: "assistantKeys examplePlatform allTime [lineAu, lineAu, lineBu, lineBu, lineAu]
     = [''unknown::A'', ''unknown::A'', ''unknown::B'', ''unknown::B'', ''unknown::A'']"
    by code_simp
  have u: "usageKeys examplePlatform allTime [lineAu, lineAu, lineBu, lineBu, lineAu]
     = assistantKeys examplePlatform allTime [lineAu, lineAu, lineBu, lineBu, lineAu]"
    by code_simp
  have n: "''unknown::A'' \<noteq> ''unknown::B''" "''unknown::A'' \<noteq> ''unknown::unknown''"
    "''unknown::B'' \<noteq> ''unknown::unknown''"
    by simp_all
  from model_switches_and_unique_models
    [of examplePlatform _ allTime 240 "[lineAu, lineAu, lineBu, lineBu, lineAu]"
        "''unknown::A''" "''unknown::B''"]
    k u n
  show ?thesis unfolding exampleSession_def by blast
qed

section \<open>Daily token counts are never negative\<close>

text \<open>
  The token-spike detector is given the fleet's daily series. Whatever the transcripts hold, the
  tokens of each of its days are a sum of normalised usage totals, hence non-negative.
\<close>

lemma foldl_invariant:
  assumes "P a" and "\<And>a x. P a \<Longrightarrow> x \<in> set xs \<Longrightarrow> P (f a x)"
  shows "P (foldl f a xs)"
  using assms by (induction xs arbitrary: a) auto

lemma normalizeUsage_total_nonneg: "normalizeUsage raw = Some u \<Longrightarrow> 0 \<le> u_total u"
  by (auto simp: normalizeUsage_def Let_def split: option.splits if_splits)

lemma processRecord_dailyMap:
  "st_dailyMap (processRecord env rng record s) =
     (if inRange rng (timestampOf env record)
      then (case dayKeyOf env (timestampOf env record) of
              None \<Rightarrow> st_dailyMap s
            | Some k \<Rightarrow>
                mapSet k
                  (foldDayBucket (roleOf (messageOf record)) (extractToolDetails (messageOf record))
                     (stopReasonIsError (stopReasonOf record (messageOf record))) (usageOf record)
                     (usageRawOf record (messageOf record)) (rawCostTotalOf record (messageOf record))
                     (mapGetOr (st_dailyMap s) k (newDayBucket k)))
                  (st_dailyMap s))
      else st_dailyMap s)"
  by (simp add: processRecord_def Let_def usageOf_def timestampOf_def cong: option.case_cong)

lemma foldDayBucket_tokens_nonneg:
  assumes "0 \<le> d_tokens b"
  shows "0 \<le> d_tokens (foldDayBucket rl tls stopErr (usageOf record) usageRaw rawCost b)"
  using assms normalizeUsage_total_nonneg [of "usageRawOf record (messageOf record)"]
  by (auto simp: foldDayBucket_def usageOf_def split: option.splits)

lemma dailyMap_tokens_nonneg:
  "\<forall>(k, b)\<in>set (st_dailyMap (parseLines env rng ls)). 0 \<le> d_tokens b"
proof (induction ls rule: rev_induct)
  case Nil
  then show ?case by (simp add: parseLines_def initialState_def)
next
  case (snoc l ls)
  define m where "m = st_dailyMap (parseLines env rng ls)"
  from snoc have inv: "\<forall>(k, b)\<in>set m. 0 \<le> d_tokens b" by (simp add: m_def)
  show ?case
  proof (cases "decodeLine env l")
    case None
    with snoc show ?thesis by (simp add: parseLines_snoc processLine_decode)
  next
    case (Some rcd)
    then have st: "parseLines env rng (ls @ [l]) = processRecord env rng rcd (parseLines env rng ls)"
      by (simp add: parseLines_snoc processLine_decode)
    show ?thesis
    proof (cases "inRange rng (timestampOf env rcd) \<and> dayKeyOf env (timestampOf env rcd) \<noteq> None")
      case False
      then have "st_dailyMap (parseLines env rng (ls @ [l])) = m"
        unfolding st m_def by (auto simp: processRecord_dailyMap)
      with inv show ?thesis by simp
    next
      case True
      then obtain k where k: "dayKeyOf env (timestampOf env rcd) = Some k" by auto
      define b where "b = foldDayBucket (roleOf (messageOf rcd)) (extractToolDetails (messageOf rcd))
                     (stopReasonIsError (stopReasonOf rcd (messageOf rcd))) (usageOf rcd)
                     (usageRawOf rcd (messageOf rcd)) (rawCostTotalOf rcd (messageOf rcd))
                     (mapGetOr m k (newDayBucket k))"
      have eq: "st_dailyMap (parseLines env rng (ls @ [l])) = mapSet k b m"
        unfolding st using True k by (simp add: processRecord_dailyMap m_def b_def)
      have "0 \<le> d_tokens (mapGetOr m k (newDayBucket k))"
        using mapGetOr_cases [of m k "newDayBucket k"] inv by (auto simp: newDayBucket_def)
      then have "0 \<le> d_tokens b"
        unfolding b_def by (rule foldDayBucket_tokens_nonneg)
      with inv show ?thesis unfolding eq by (auto dest!: set_mapSet_cases)
    qed
  qed
qed

lemma session_daily_tokens_nonneg:
  "\<forall>d\<in>set (ss_daily (parseSessionFile env meta rng timelineLimit ls)). 0 \<le> sd_tokens d"
  using dailyMap_tokens_nonneg [of env rng ls]
  by (auto simp: parseSessionFile_def summarize_def Let_def dailyOf_def set_arraySort)

lemma foldDay_tokens_nonneg:
  assumes "\<forall>(k, d)\<in>set m. 0 \<le> fda_tokens d" and "0 \<le> sd_tokens day"
  shows "\<forall>(k, d)\<in>set (foldDay m day). 0 \<le> fda_tokens d"
proof -
  define dflt where "dflt = \<lparr> fda_date = sd_date day, fda_tokens = 0, fda_cost = 0, fda_messages = 0,
              fda_toolCalls = 0, fda_errors = 0, fda_latency = emptyLatency \<rparr>"
  have "0 \<le> fda_tokens (mapGetOr m (sd_date day) dflt)"
    using mapGetOr_cases [of m "sd_date day" dflt] assms(1) by (auto simp: dflt_def)
  then show ?thesis
    using assms unfolding foldDay_def Let_def dflt_def [symmetric]
    by (auto dest!: set_mapSet_cases)
qed

lemma ag_dailyMap_foldl:
  "ag_dailyMap (foldl aggregateStep acc ss)
     = foldl (\<lambda>m s. foldl foldDay m (ss_daily s)) (ag_dailyMap acc) ss"
  by (induction ss arbitrary: acc) (simp_all add: aggregateStep_def)

lemma fleet_daily_tokens_nonneg:
  assumes "\<forall>s\<in>set sessions. \<forall>d\<in>set (ss_daily s). 0 \<le> sd_tokens d"
  shows "\<forall>d\<in>set (daily (aggregateSessions sessions flt)). 0 \<le> fd_tokens d"
proof -
  define fs where "fs = filter (sessionPasses flt) sessions"
  have fs: "\<forall>s\<in>set fs. \<forall>d\<in>set (ss_daily s). 0 \<le> sd_tokens d"
    using assms by (auto simp: fs_def)
  define P where "P m \<longleftrightarrow> (\<forall>(k, d)\<in>set m. 0 \<le> fda_tokens d)"
    for m :: "(string \<times> fleet_day_acc) list"
  have step: "P (foldDay m day)" if "P m" and "0 \<le> sd_tokens day" for m day
    using that foldDay_tokens_nonneg [of m day] unfolding P_def by blast
  have inner: "P (foldl foldDay m (ss_daily s))" if "P m" and "s \<in> set fs" for m s
  proof (rule foldl_invariant [where P = P])
    show "P m" by (rule that)
  next
    fix m' day
    assume "P m'" and "day \<in> set (ss_daily s)"
    with fs that(2) show "P (foldDay m' day)" by (intro step) auto
  qed
  have "P (foldl (\<lambda>m s. foldl foldDay m (ss_daily s)) [] fs)"
    by (rule foldl_invariant [where P = P]) (simp_all add: P_def [of "[]"] inner)
  then show ?thesis
    unfolding P_def
    by (auto simp: aggregateSessions_def Let_def set_arraySort ag_dailyMap_foldl emptyAggregate_def
        fs_def fleetDayOf_def)
qed


lemma parsed_fleet_daily_tokens_nonneg:
  "\<forall>d\<in>set (daily (aggregateSessions
       (map (\<lambda>(meta, ls). parseSessionFile env meta rng timelineLimit ls) transcripts) flt)).
     0 \<le> fd_tokens d"
  by (rule fleet_daily_tokens_nonneg) (auto simp: session_daily_tokens_nonneg)

end
